theory Spec2Isabelle
  imports Complex_Main "HOL-Library.Word" "HOL-Library.AList"
begin

section \<open>JavaScript values\<close>

text \<open>
  A JavaScript string is a sequence of UTF-16 code units, and \<open>length\<close> counts code
  units. ASCII literals are written with \<open>lit\<close>; a character outside ASCII is written
  as its code unit(s).
\<close>

type_synonym jsstring = "16 word list"

definition lit :: "string \<Rightarrow> jsstring" where
  "lit s = map of_char s"

text \<open>
  The dynamic values of the program: what \<open>JSON.parse\<close> produces, \<open>undefined\<close>, and
  \<open>Date\<close> objects (by their time value). An object is the list of its own properties;
  a number is given by its value.
\<close>

datatype jsval =
    JUndefined
  | JNull
  | JBool bool
  | JNum rat
  | JStr jsstring
  | JDate int
  | JArr "jsval list"
  | JObj "(jsstring \<times> jsval) list"

text \<open>
  A thrown value: an \<open>Error\<close> object with its \<open>message\<close>, or anything else
  (\<open>error instanceof Error\<close> is false).
\<close>

datatype thrown = ErrorObj jsstring | NonError

text \<open>\<open>!v\<close> is false exactly for the truthy values.\<close>

fun truthy :: "jsval \<Rightarrow> bool" where
  "truthy JUndefined = False"
| "truthy JNull = False"
| "truthy (JBool b) = b"
| "truthy (JNum r) = (r \<noteq> 0)"
| "truthy (JStr s) = (s \<noteq> [])"
| "truthy (JDate t) = True"
| "truthy (JArr xs) = True"
| "truthy (JObj kvs) = True"

text \<open>\<open>a || b\<close>\<close>

definition js_or :: "jsval \<Rightarrow> jsval \<Rightarrow> jsval" where
  "js_or a b = (if truthy a then a else b)"

text \<open>
  The property read \<open>v.key\<close>, for the property names this program reads from parsed
  JSON and from parameter objects (none of them is a built-in property of a string,
  number, boolean, array or date): reading from \<open>undefined\<close> or \<open>null\<close> throws a
  TypeError, an object gives its own property, anything else gives \<open>undefined\<close>.
\<close>

definition cannot_read :: "jsstring \<Rightarrow> jsstring \<Rightarrow> thrown" where
  "cannot_read what key =
     ErrorObj (lit ''Cannot read properties of '' @ what @ lit '' (reading '' @ [0x27] @ key @ [0x27] @ lit '')'')"

fun get_prop :: "jsval \<Rightarrow> jsstring \<Rightarrow> thrown + jsval" where
  "get_prop JUndefined key = Inl (cannot_read (lit ''undefined'') key)"
| "get_prop JNull key = Inl (cannot_read (lit ''null'') key)"
| "get_prop (JObj kvs) key = Inr (case map_of kvs key of None \<Rightarrow> JUndefined | Some v \<Rightarrow> v)"
| "get_prop v key = Inr JUndefined"

text \<open>Sequencing of computations that may throw.\<close>

definition bind :: "thrown + 'a \<Rightarrow> ('a \<Rightarrow> thrown + 'b) \<Rightarrow> thrown + 'b" where
  "bind m f = (case m of Inl e \<Rightarrow> Inl e | Inr x \<Rightarrow> f x)"

text \<open>
  The built-ins of the language that the program calls and that are taken as given:
  \<^item> \<open>JSON_parse\<close>: \<open>JSON.parse\<close>, \<open>None\<close> when it throws a SyntaxError;
  \<^item> \<open>toLowerCase\<close>: \<open>String.prototype.toLowerCase\<close>;
  \<^item> \<open>Number_toString\<close>: the string of a number in a template literal;
  \<^item> \<open>ToString_other\<close>: the string of a value that is neither a string nor a number in
    a template literal (it throws for an object that cannot be converted);
  \<^item> \<open>Date_addDays\<close>: the time value after \<open>d.setDate(d.getDate() + n)\<close>;
  \<^item> \<open>Date_parse\<close>: the time value of \<open>new Date(text)\<close>, \<open>None\<close> when it is NaN;
  \<^item> \<open>slice_end_other\<close>: for an array of the given length and an end argument that is
    not a number, how many leading elements \<open>slice(0, end)\<close> keeps.
\<close>

record runtime =
  JSON_parse :: "jsstring \<Rightarrow> jsval option"
  toLowerCase :: "jsstring \<Rightarrow> jsstring"
  Number_toString :: "rat \<Rightarrow> jsstring"
  ToString_other :: "jsval \<Rightarrow> thrown + jsstring"
  Date_addDays :: "int \<Rightarrow> int \<Rightarrow> int"
  Date_parse :: "jsstring \<Rightarrow> int option"
  slice_end_other :: "jsval \<Rightarrow> nat \<Rightarrow> thrown + nat"

text \<open>\<open>`${v}`\<close>\<close>

definition ToString :: "runtime \<Rightarrow> jsval \<Rightarrow> thrown + jsstring" where
  "ToString rt v =
     (case v of JStr s \<Rightarrow> Inr s | JNum r \<Rightarrow> Inr (Number_toString rt r) | _ \<Rightarrow> ToString_other rt v)"

text \<open>\<open>s.includes(t)\<close>: \<open>t\<close> occurs in \<open>s\<close> as a contiguous run of code units.\<close>

fun js_includes :: "jsstring \<Rightarrow> jsstring \<Rightarrow> bool" where
  "js_includes [] t = (t = [])"
| "js_includes (c # s) t = (take (length t) (c # s) = t \<or> js_includes s t)"

section \<open>Input validation (NLPUtils.validateInputLength)\<close>

record validation =
  valid :: bool
  message :: "jsstring option"

definition msg_empty_input :: jsstring where
  "msg_empty_input = lit ''Por favor, digite algo para eu poder ajudar.''"

definition msg_too_long :: jsstring where
  "msg_too_long = lit ''Sua mensagem '' @ [0xE9] @ lit '' muito longa. Tente ser mais conciso.''"

definition validateInputLength :: "jsstring \<Rightarrow> validation" where
  "validateInputLength input =
     (if length input = 0 then \<lparr>valid = False, message = Some msg_empty_input\<rparr>
      else if length input > 1000 then \<lparr>valid = False, message = Some msg_too_long\<rparr>
      else \<lparr>valid = True, message = None\<rparr>)"

section \<open>Title extraction (NLPProcessor.extractTitleFromInput)\<close>

text \<open>
  The class \<open>\s\<close> of a regular expression, which is also what \<open>trim\<close> strips: the
  white space and line terminator code units.
\<close>

definition is_space :: "16 word \<Rightarrow> bool" where
  "is_space c \<longleftrightarrow>
     c \<in> set [0x09, 0x0A, 0x0B, 0x0C, 0x0D, 0x20, 0xA0, 0x1680, 0x2028, 0x2029, 0x202F,
               0x205F, 0x3000, 0xFEFF] \<or> (0x2000 \<le> c \<and> c \<le> 0x200A)"

text \<open>
  Under the flag \<open>i\<close> (without \<open>u\<close>) a letter of a pattern matches the code units of
  its two ASCII cases and no other.
\<close>

definition ascii_lower :: "16 word \<Rightarrow> 16 word" where
  "ascii_lower c = (if 0x41 \<le> c \<and> c \<le> 0x5A then c + 0x20 else c)"

text \<open>
  \<open>match_word w s\<close>: the literal \<open>w\<close> (in lower case) matches a prefix of \<open>s\<close>,
  ignoring case; the result is the rest of \<open>s\<close>.
\<close>

fun match_word :: "jsstring \<Rightarrow> jsstring \<Rightarrow> jsstring option" where
  "match_word [] s = Some s"
| "match_word (w # ws) [] = None"
| "match_word (w # ws) (c # s) = (if ascii_lower c = w then match_word ws s else None)"

text \<open>
  \<open>\s+\<close> at the end of a pattern, or before \<open>$\<close>: one or more white space units, as
  many as there are. The result is what follows them.
\<close>

definition match_spaces1 :: "jsstring \<Rightarrow> jsstring option" where
  "match_spaces1 s = (case s of [] \<Rightarrow> None | c # r \<Rightarrow> if is_space c then Some (dropWhile is_space r) else None)"

text \<open>
  \<open>^(criar|adicionar|nova?|novo)\s+\<close> with flag \<open>i\<close>: the alternatives are tried in
  order (\<open>nova?\<close> is \<open>nova\<close>, then \<open>nov\<close>), each followed by \<open>\s+\<close>; the result is
  the input after the match.
\<close>

fun match_alternatives :: "jsstring list \<Rightarrow> jsstring \<Rightarrow> jsstring option" where
  "match_alternatives [] s = None"
| "match_alternatives (w # ws) s =
     (case match_word w s of
        None \<Rightarrow> match_alternatives ws s
      | Some r \<Rightarrow> (case match_spaces1 r of None \<Rightarrow> match_alternatives ws s | Some r' \<Rightarrow> Some r'))"

definition strip_leading_verb :: "jsstring \<Rightarrow> jsstring" where
  "strip_leading_verb s =
     (case match_alternatives [lit ''criar'', lit ''adicionar'', lit ''nova'', lit ''nov'', lit ''novo''] s of
        None \<Rightarrow> s
      | Some r \<Rightarrow> r)"

text \<open>
  \<open>(tarefa|nota|projeto)\s*$\<close> at a position: one of the words, then white space up to
  the end of the string.
\<close>

definition noun_to_end :: "jsstring \<Rightarrow> bool" where
  "noun_to_end s \<longleftrightarrow>
     (\<exists>w \<in> set [lit ''tarefa'', lit ''nota'', lit ''projeto''].
        case match_word w s of None \<Rightarrow> False | Some r \<Rightarrow> dropWhile is_space r = [])"

text \<open>
  \<open>\s+(tarefa|nota|projeto)\s*$\<close> with flag \<open>i\<close>, replaced by the empty string at its
  first match: the match starts at the leftmost position from which white space, one
  of the words and white space up to the end follow.
\<close>

fun strip_trailing_noun :: "jsstring \<Rightarrow> jsstring" where
  "strip_trailing_noun [] = []"
| "strip_trailing_noun (c # s) =
     (if is_space c \<and> noun_to_end (dropWhile is_space s) then [] else c # strip_trailing_noun s)"

definition trim :: "jsstring \<Rightarrow> jsstring" where
  "trim s = rev (dropWhile is_space (rev (dropWhile is_space s)))"

definition extractTitleFromInput :: "jsstring \<Rightarrow> jsstring" where
  "extractTitleFromInput input =
     (let cleanInput = trim (strip_trailing_noun (strip_leading_verb input))
      in if cleanInput \<noteq> [] then cleanInput else lit ''Nova tarefa'')"

section \<open>The conversation context store (NLPProcessor)\<close>

text \<open>
  One entry of a history. The output is typed as a string in the source; the value
  stored is whatever the parsed reply of the classifier held.
\<close>

record hist =
  input :: jsstring
  output' :: jsval
  timestamp :: int

text \<open>
  The optional fields \<open>userId\<close>, \<open>currentTask\<close> and \<open>currentProject\<close> of a
  context are never written by the program and are left out.
\<close>

record ConversationContext =
  sessionId :: jsstring
  history :: "hist list"

text \<open>
  The \<open>Map\<close> from session ids to contexts, in insertion order. \<open>set\<close> on a missing
  key adds it at the end, on a present key replaces its value in place
  (\<open>AList.update\<close>); \<open>delete\<close> is \<open>AList.delete\<close>.
\<close>

type_synonym context_map = "(jsstring \<times> ConversationContext) list"

text \<open>
  What the program does to the outside, in the order in which it happens: calls of the
  classifier (with the input and the history turns placed in the prompt), appends to
  a history, and calls of the backing store.
\<close>

datatype store_call =
    CreateTask jsval
  | SearchTasks jsval
  | UpdateTask jsval jsval
  | CompleteTask jsval
  | CreateNote jsval
  | SearchNotes jsval
  | CreateProject jsval
  | GetDashboardSummary
  | GetProductivityStats jsval

datatype event =
    OpenAICall jsstring "hist list"
  | ContextAppend jsstring hist
  | StoreCall store_call

record state =
  contextMap :: context_map
  trace :: "event list"

definition initial_state :: state where
  "initial_state = \<lparr>contextMap = [], trace = []\<rparr>"

definition getOrCreateContext :: "jsstring \<Rightarrow> context_map \<Rightarrow> ConversationContext \<times> context_map" where
  "getOrCreateContext sid m =
     (case map_of m sid of
        None \<Rightarrow> (let c = \<lparr>sessionId = sid, history = []\<rparr> in (c, m @ [(sid, c)]))
      | Some c \<Rightarrow> (c, m))"

text \<open>\<open>xs.slice(-n)\<close>: the last \<open>n\<close> elements, all of them when there are fewer.\<close>

definition slice_last :: "nat \<Rightarrow> 'a list \<Rightarrow> 'a list" where
  "slice_last n xs = drop (length xs - n) xs"

text \<open>The argument \<open>now\<close> is the time value that \<open>new Date()\<close> reads.\<close>

definition updateContext :: "jsstring \<Rightarrow> jsstring \<Rightarrow> jsval \<Rightarrow> int \<Rightarrow> state \<Rightarrow> state" where
  "updateContext sid inp out now st =
     (let (c, m) = getOrCreateContext sid (contextMap st);
          e = \<lparr>input = inp, output' = out, timestamp = now\<rparr>;
          h = history c @ [e];
          h' = (if length h > 10 then slice_last 10 h else h)
      in st\<lparr>contextMap := AList.update sid (c\<lparr>history := h'\<rparr>) m,
             trace := trace st @ [ContextAppend sid e]\<rparr>)"

definition clearContext :: "jsstring \<Rightarrow> state \<Rightarrow> state" where
  "clearContext sid st = st\<lparr>contextMap := AList.delete sid (contextMap st)\<rparr>"

record stats =
  activeSessions :: nat
  totalInteractions :: nat

definition getStats :: "state \<Rightarrow> stats" where
  "getStats st =
     \<lparr>activeSessions = length (contextMap st),
      totalInteractions = fold (\<lambda>(sid, c) total. total + length (history c)) (contextMap st) 0\<rparr>"

section \<open>Intent analysis (NLPProcessor.analyzeIntent)\<close>

text \<open>
  The classifier: given what happened so far, the input and the history turns of the
  prompt, either the call throws, or it yields the value of
  \<open>completion.choices[0]?.message?.content\<close> (\<open>None\<close> when there is none).
\<close>

type_synonym openai = "event list \<Rightarrow> jsstring \<Rightarrow> hist list \<Rightarrow> thrown + jsstring option"

definition msg_clarify :: jsstring where
  "msg_clarify = lit ''Entendi sua mensagem, mas preciso de mais clareza para ajudar melhor.''"

definition fallback_analysis :: jsval where
  "fallback_analysis =
     JObj [(lit ''intent'', JStr (lit ''conversation'')),
           (lit ''entities'', JObj []),
           (lit ''confidence'', JNum (1 / 2)),
           (lit ''response'', JStr msg_clarify)]"

definition empty_response :: thrown where
  "empty_response = ErrorObj (lit ''Resposta vazia da OpenAI'')"

definition analyzeIntent ::
  "runtime \<Rightarrow> openai \<Rightarrow> jsstring \<Rightarrow> ConversationContext \<Rightarrow> event list \<Rightarrow> (thrown + jsval) \<times> event list" where
  "analyzeIntent rt oa inp c tr =
     (let recent = slice_last 3 (history c)
      in ((case oa tr inp recent of
             Inl e \<Rightarrow> Inl e
           | Inr None \<Rightarrow> Inl empty_response
           | Inr (Some response) \<Rightarrow>
               if response = [] then Inl empty_response
               else (case JSON_parse rt response of
                       Some v \<Rightarrow> Inr v
                     | None \<Rightarrow> Inr fallback_analysis)),
          tr @ [OpenAICall inp recent]))"

section \<open>Command extraction (NLPProcessor.extractCommand)\<close>

text \<open>
  Calling \<open>toLowerCase\<close> on a value that is not a string throws a TypeError.
\<close>

definition not_a_function :: "string \<Rightarrow> thrown" where
  "not_a_function what = ErrorObj (lit what @ lit '' is not a function'')"

definition normalizePriority :: "runtime \<Rightarrow> jsval \<Rightarrow> thrown + jsval" where
  "normalizePriority rt priority =
     (if \<not> truthy priority then Inr JUndefined
      else case priority of
        JStr s \<Rightarrow>
          (let p = toLowerCase rt s
           in if js_includes p (lit ''alta'') \<or> js_includes p (lit ''high'') \<or> js_includes p (lit ''urgente'')
              then Inr (JStr (lit ''Alta''))
              else if js_includes p (lit ''baixa'') \<or> js_includes p (lit ''low'')
              then Inr (JStr (lit ''Baixa''))
              else Inr (JStr (lit ''M'' @ [0xE9] @ lit ''dia'')))
      | _ \<Rightarrow> Inl (not_a_function ''priority.toLowerCase''))"

definition parseDate :: "runtime \<Rightarrow> int \<Rightarrow> jsval \<Rightarrow> thrown + jsval" where
  "parseDate rt now dateText =
     (if \<not> truthy dateText then Inr JUndefined
      else case dateText of
        JStr s \<Rightarrow>
          (let today = now;
               tomorrow = Date_addDays rt today 1;
               text = toLowerCase rt s
           in if js_includes text (lit ''hoje'') then Inr (JDate today)
              else if js_includes text (lit ''amanh'' @ [0xE3]) then Inr (JDate tomorrow)
              else if js_includes text (lit ''semana'') then Inr (JDate (Date_addDays rt today 7))
              else (case Date_parse rt s of None \<Rightarrow> Inr JUndefined | Some t \<Rightarrow> Inr (JDate t)))
      | _ \<Rightarrow> Inl (not_a_function ''dateText.toLowerCase''))"

record AICommand =
  type :: jsstring
  target :: jsstring
  action :: jsstring

definition read :: "jsval \<Rightarrow> string \<Rightarrow> thrown + jsval" where
  "read v key = get_prop v (lit key)"

definition mk_command :: "string \<Rightarrow> string \<Rightarrow> string \<Rightarrow> AICommand" where
  "mk_command ty tg ac = \<lparr>type = lit ty, target = lit tg, action = lit ac\<rparr>"

text \<open>
  The result is the pair of the fields \<open>command\<close> and \<open>parameters\<close> of the object
  returned; the empty object \<open>{}\<close> of the default case has neither.
\<close>

definition extractCommand :: "runtime \<Rightarrow> int \<Rightarrow> jsstring \<Rightarrow> jsval \<Rightarrow> thrown + (AICommand option \<times> jsval)" where
  "extractCommand rt now inp analysis =
     bind (read analysis ''intent'') (\<lambda>intent.
     bind (read analysis ''entities'') (\<lambda>entities.
       if intent = JStr (lit ''create_task'') then
         bind (read entities ''title'') (\<lambda>title.
         bind (read entities ''description'') (\<lambda>description.
         bind (read entities ''priority'') (\<lambda>priority.
         bind (normalizePriority rt priority) (\<lambda>priority'.
         bind (read entities ''due_date'') (\<lambda>due_date.
         bind (parseDate rt now due_date) (\<lambda>dueDate.
         bind (read entities ''tags'') (\<lambda>tags.
           Inr (Some (mk_command ''create'' ''task'' ''create_task''),
                JObj [(lit ''title'', js_or title (JStr (extractTitleFromInput inp))),
                      (lit ''description'', description),
                      (lit ''priority'', priority'),
                      (lit ''dueDate'', dueDate),
                      (lit ''tags'', js_or tags (JArr []))]))))))))
       else if intent = JStr (lit ''update_task'') then
         bind (read entities ''task_id'') (\<lambda>task_id.
         bind (read entities ''title'') (\<lambda>title.
         bind (read entities ''description'') (\<lambda>description.
         bind (read entities ''priority'') (\<lambda>priority.
         bind (normalizePriority rt priority) (\<lambda>priority'.
         bind (read entities ''status'') (\<lambda>status.
         bind (read entities ''due_date'') (\<lambda>due_date.
         bind (parseDate rt now due_date) (\<lambda>dueDate.
           Inr (Some (mk_command ''update'' ''task'' ''update_task''),
                JObj [(lit ''taskId'', task_id),
                      (lit ''updates'',
                       JObj [(lit ''title'', title),
                             (lit ''description'', description),
                             (lit ''priority'', priority'),
                             (lit ''status'', status),
                             (lit ''dueDate'', dueDate)])])))))))))
       else if intent = JStr (lit ''complete_task'') then
         bind (read entities ''task_id'') (\<lambda>task_id.
         bind (read entities ''title'') (\<lambda>title.
           Inr (Some (mk_command ''update'' ''task'' ''complete_task''),
                JObj [(lit ''taskId'', task_id), (lit ''title'', title)])))
       else if intent = JStr (lit ''list_tasks'') then
         bind (read entities ''status'') (\<lambda>status.
         bind (read entities ''priority'') (\<lambda>priority.
         bind (normalizePriority rt priority) (\<lambda>priority'.
         bind (read entities ''project_name'') (\<lambda>project_name.
         bind (read entities ''limit'') (\<lambda>limit.
           Inr (Some (mk_command ''read'' ''task'' ''list_tasks''),
                JObj [(lit ''status'', status),
                      (lit ''priority'', priority'),
                      (lit ''project'', project_name),
                      (lit ''limit'', js_or limit (JNum 10))]))))))
       else if intent = JStr (lit ''create_note'') then
         bind (read entities ''title'') (\<lambda>title.
         bind (read entities ''description'') (\<lambda>description.
         bind (read entities ''tags'') (\<lambda>tags.
           Inr (Some (mk_command ''create'' ''note'' ''create_note''),
                JObj [(lit ''title'', js_or title (JStr (extractTitleFromInput inp))),
                      (lit ''content'', js_or description (JStr inp)),
                      (lit ''tags'', js_or tags (JArr []))]))))
       else if intent = JStr (lit ''search_notes'') then
         bind (read entities ''search_query'') (\<lambda>search_query.
         bind (read entities ''tags'') (\<lambda>tags.
           Inr (Some (mk_command ''read'' ''note'' ''search_notes''),
                JObj [(lit ''query'', js_or search_query (JStr inp)), (lit ''tags'', tags)])))
       else if intent = JStr (lit ''create_project'') then
         bind (read entities ''title'') (\<lambda>title.
         bind (read entities ''project_name'') (\<lambda>project_name.
         bind (read entities ''description'') (\<lambda>description.
           Inr (Some (mk_command ''create'' ''project'' ''create_project''),
                JObj [(lit ''name'', js_or title project_name),
                      (lit ''description'', description),
                      (lit ''status'', JStr (lit ''Ativo''))]))))
       else if intent = JStr (lit ''dashboard'') then
         Inr (Some (mk_command ''read'' ''dashboard'' ''get_summary''), JObj [])
       else if intent = JStr (lit ''analytics'') then
         bind (read entities ''period'') (\<lambda>period.
           Inr (Some (mk_command ''read'' ''analytics'' ''get_stats''),
                JObj [(lit ''period'', js_or period (JStr (lit ''week'')))]))
       else Inr (None, JUndefined)))"

section \<open>Processing one input (NLPProcessor.processInput)\<close>

record NLPResult =
  intent :: jsval
  entities :: jsval
  confidence :: jsval
  command :: "AICommand option"
  parameters :: jsval
  response :: jsval

definition msg_apology :: jsstring where
  "msg_apology =
     lit ''Desculpe, n'' @ [0xE3] @ lit ''o consegui entender sua solicita'' @ [0xE7, 0xE3]
       @ lit ''o. Pode reformular?''"

definition error_result :: NLPResult where
  "error_result =
     \<lparr>intent = JStr (lit ''error''), entities = JObj [], confidence = JNum 0,
      command = None, parameters = JUndefined, response = JStr msg_apology\<rparr>"

definition processInput ::
  "runtime \<Rightarrow> openai \<Rightarrow> int \<Rightarrow> jsstring \<Rightarrow> jsstring option \<Rightarrow> state \<Rightarrow> NLPResult \<times> state" where
  "processInput rt oa now inp session st =
     (let sid = (case session of None \<Rightarrow> lit ''default'' | Some s \<Rightarrow> s);
          (c, m) = getOrCreateContext sid (contextMap st);
          (analysis, tr) = analyzeIntent rt oa inp c (trace st);
          st1 = st\<lparr>contextMap := m, trace := tr\<rparr>
      in case bind analysis (\<lambda>a.
              bind (extractCommand rt now inp a) (\<lambda>cmd.
              bind (read a ''response'') (\<lambda>r. Inr (a, cmd, r)))) of
           Inl e \<Rightarrow> (error_result, st1)
         | Inr (a, (cmd, params), r) \<Rightarrow>
             (let st2 = updateContext sid inp (js_or r (JStr [])) now st1
              in case bind (read a ''intent'') (\<lambda>i.
                      bind (read a ''entities'') (\<lambda>es.
                      bind (read a ''confidence'') (\<lambda>cf.
                      bind (read a ''response'') (\<lambda>rs.
                        Inr \<lparr>intent = i, entities = es, confidence = cf, command = cmd,
                             parameters = params, response = rs\<rparr>)))) of
                   Inl e \<Rightarrow> (error_result, st2)
                 | Inr res \<Rightarrow> (res, st2)))"

section \<open>Command execution (CommandExecutor)\<close>

text \<open>
  What the backing store returns, with the fields that the executor reads. The summary
  and the statistics are flattened.
\<close>

record Task =
  task_id :: jsstring
  task_title :: jsstring
  task_status :: jsstring
  task_priority :: jsstring

record Note =
  note_title :: jsstring
  note_tags :: "jsstring list"

record Project =
  project_name :: jsstring

record Summary =
  tasks_todo :: rat
  tasks_inProgress :: rat
  tasks_completed :: rat
  notes_total :: rat
  projects_active :: rat
  productivity_tasksCompletedToday :: rat

record ProductivityStats =
  tasksCompleted :: rat
  notesCreated :: rat
  averageCompletionTime :: jsstring
  completionRate :: rat
  currentStreak :: rat

text \<open>
  The backing store, handed to the executor at construction. Each operation is given
  what happened so far and its arguments, and either throws or returns.
\<close>

record NotionServices =
  ns_createTask :: "event list \<Rightarrow> jsval \<Rightarrow> thrown + Task"
  ns_searchTasks :: "event list \<Rightarrow> jsval \<Rightarrow> thrown + Task list"
  ns_updateTask :: "event list \<Rightarrow> jsval \<Rightarrow> jsval \<Rightarrow> thrown + Task"
  ns_completeTask :: "event list \<Rightarrow> jsval \<Rightarrow> thrown + Task"
  ns_createNote :: "event list \<Rightarrow> jsval \<Rightarrow> thrown + Note"
  ns_searchNotes :: "event list \<Rightarrow> jsval \<Rightarrow> thrown + Note list"
  ns_createProject :: "event list \<Rightarrow> jsval \<Rightarrow> thrown + Project"
  ns_getDashboardSummary :: "event list \<Rightarrow> thrown + Summary"
  ns_getProductivityStats :: "event list \<Rightarrow> jsval \<Rightarrow> thrown + ProductivityStats"

datatype payload =
    TaskData Task
  | TaskList "Task list"
  | NoteData Note
  | NoteList "Note list"
  | ProjectData Project
  | SummaryData Summary
  | StatsData ProductivityStats

text \<open>
  The message is typed as a string in the source; without a command it is whatever the
  field \<open>response\<close> of the result of the processor holds.
\<close>

record CommandResult =
  success :: bool
  message :: jsval
  data :: "payload option"
  error :: "jsstring option"

text \<open>
  A step of the executor: from the events so far, a value or a thrown value, and the
  events after it.
\<close>

type_synonym 'a exec = "event list \<Rightarrow> (thrown + 'a) \<times> event list"

definition ret :: "'a \<Rightarrow> 'a exec" where
  "ret x = (\<lambda>tr. (Inr x, tr))"

definition lift :: "thrown + 'a \<Rightarrow> 'a exec" where
  "lift m = (\<lambda>tr. (m, tr))"

definition seq :: "'a exec \<Rightarrow> ('a \<Rightarrow> 'b exec) \<Rightarrow> 'b exec" where
  "seq m f = (\<lambda>tr. case m tr of (Inl e, tr') \<Rightarrow> (Inl e, tr') | (Inr x, tr') \<Rightarrow> f x tr')"

text \<open>A call of the backing store: the reply is decided, and the call is recorded.\<close>

definition store :: "store_call \<Rightarrow> (event list \<Rightarrow> thrown + 'a) \<Rightarrow> 'a exec" where
  "store c reply = (\<lambda>tr. (reply tr, tr @ [StoreCall c]))"

text \<open>\<open>try { ... } catch (error) { return handler(error) }\<close>\<close>

definition try_catch :: "'a exec \<Rightarrow> (thrown \<Rightarrow> 'a) \<Rightarrow> 'a exec" where
  "try_catch body handler = (\<lambda>tr. case body tr of (Inl e, tr') \<Rightarrow> (Inr (handler e), tr') | (Inr x, tr') \<Rightarrow> (Inr x, tr'))"

text \<open>\<open>error instanceof Error ? error.message : 'Erro desconhecido'\<close>\<close>

definition error_message :: "thrown \<Rightarrow> jsstring" where
  "error_message e = (case e of ErrorObj m \<Rightarrow> m | NonError \<Rightarrow> lit ''Erro desconhecido'')"

definition failure :: "jsstring \<Rightarrow> thrown \<Rightarrow> CommandResult" where
  "failure msg e = \<lparr>success = False, message = JStr msg, data = None, error = Some (error_message e)\<rparr>"

definition nao_foi_possivel :: "string \<Rightarrow> jsstring" where
  "nao_foi_possivel what = lit ''N'' @ [0xE3] @ lit ''o foi poss'' @ [0xED] @ lit ''vel '' @ lit what"

definition msg_media :: jsstring where
  "msg_media = lit ''M'' @ [0xE9] @ lit ''dia''"

definition createTask :: "NotionServices \<Rightarrow> jsval \<Rightarrow> CommandResult exec" where
  "createTask ns params =
     try_catch
       (seq (lift (bind (read params ''title'') (\<lambda>title.
                   bind (read params ''description'') (\<lambda>description.
                   bind (read params ''priority'') (\<lambda>priority.
                   bind (read params ''dueDate'') (\<lambda>dueDate.
                   bind (read params ''tags'') (\<lambda>tags.
                     Inr (JObj [(lit ''title'', js_or title (JStr (lit ''Nova tarefa''))),
                                (lit ''description'', description),
                                (lit ''priority'', js_or priority (JStr msg_media)),
                                (lit ''status'', JStr (lit ''A fazer'')),
                                (lit ''dueDate'', dueDate),
                                (lit ''tags'', js_or tags (JArr []))]))))))))
          (\<lambda>taskData.
        seq (store (CreateTask taskData) (\<lambda>tr. ns_createTask ns tr taskData)) (\<lambda>task.
        ret \<lparr>success = True,
             message = JStr ([0x2705] @ lit '' Tarefa '' @ [0x22] @ task_title task @ [0x22]
                               @ lit '' criada com sucesso!''),
             data = Some (TaskData task), error = None\<rparr>)))
       (failure (nao_foi_possivel ''criar a tarefa.''))"

definition msg_id_missing :: jsstring where
  "msg_id_missing = lit ''ID ou t'' @ [0xED] @ lit ''tulo da tarefa n'' @ [0xE3] @ lit ''o fornecido''"

definition msg_necessario :: "string \<Rightarrow> jsstring" where
  "msg_necessario what = [0xC9] @ lit '' necess'' @ [0xE1] @ lit ''rio especificar qual tarefa '' @ lit what"

definition not_found :: "jsstring \<Rightarrow> CommandResult" where
  "not_found title =
     \<lparr>success = False,
      message = JStr (lit ''Tarefa '' @ [0x22] @ title @ [0x22] @ lit '' n'' @ [0xE3] @ lit ''o encontrada.''),
      data = None,
      error = Some (lit ''Tarefa n'' @ [0xE3] @ lit ''o encontrada'')\<rparr>"

text \<open>
  The part that the two handlers below share word for word: the task id of the
  parameters or, without one, the id of the first task that the search by title
  returns. \<open>Inl\<close> is the result returned early when the search finds nothing.
\<close>

definition resolve_task :: "runtime \<Rightarrow> NotionServices \<Rightarrow> jsval \<Rightarrow> jsval \<Rightarrow> (CommandResult + jsval) exec" where
  "resolve_task rt ns taskId title =
     (if \<not> truthy taskId \<and> truthy title then
        seq (store (SearchTasks (JObj [(lit ''title'', title)]))
               (\<lambda>tr. ns_searchTasks ns tr (JObj [(lit ''title'', title)]))) (\<lambda>tasks.
          case tasks of
            [] \<Rightarrow> seq (lift (ToString rt title)) (\<lambda>t. ret (Inl (not_found t)))
          | t # ts \<Rightarrow> ret (Inr (JStr (task_id t))))
      else ret (Inr taskId))"

definition updateTask :: "runtime \<Rightarrow> NotionServices \<Rightarrow> jsval \<Rightarrow> CommandResult exec" where
  "updateTask rt ns params =
     try_catch
       (seq (lift (read params ''taskId'')) (\<lambda>taskId.
        seq (lift (read params ''title'')) (\<lambda>title.
          if \<not> truthy taskId \<and> \<not> truthy title then
            ret \<lparr>success = False, message = JStr (msg_necessario ''atualizar.''),
                 data = None, error = Some msg_id_missing\<rparr>
          else
            seq (resolve_task rt ns taskId title) (\<lambda>r.
              case r of
                Inl res \<Rightarrow> ret res
              | Inr taskId' \<Rightarrow>
                  seq (lift (read params ''updates'')) (\<lambda>updates.
                  seq (store (UpdateTask taskId' updates) (\<lambda>tr. ns_updateTask ns tr taskId' updates)) (\<lambda>updatedTask.
                  ret \<lparr>success = True,
                       message = JStr ([0x2705] @ lit '' Tarefa '' @ [0x22] @ task_title updatedTask @ [0x22]
                                         @ lit '' atualizada com sucesso!''),
                       data = Some (TaskData updatedTask), error = None\<rparr>))))))
       (failure (nao_foi_possivel ''atualizar a tarefa.''))"

definition completeTask :: "runtime \<Rightarrow> NotionServices \<Rightarrow> jsval \<Rightarrow> CommandResult exec" where
  "completeTask rt ns params =
     try_catch
       (seq (lift (read params ''taskId'')) (\<lambda>taskId.
        seq (lift (read params ''title'')) (\<lambda>title.
          if \<not> truthy taskId \<and> \<not> truthy title then
            ret \<lparr>success = False, message = JStr (msg_necessario ''completar.''),
                 data = None, error = Some msg_id_missing\<rparr>
          else
            seq (resolve_task rt ns taskId title) (\<lambda>r.
              case r of
                Inl res \<Rightarrow> ret res
              | Inr taskId' \<Rightarrow>
                  seq (store (CompleteTask taskId') (\<lambda>tr. ns_completeTask ns tr taskId')) (\<lambda>completedTask.
                  ret \<lparr>success = True,
                       message = JStr ([0xD83C, 0xDF89] @ lit '' Tarefa '' @ [0x22] @ task_title completedTask @ [0x22]
                                         @ lit '' marcada como conclu'' @ [0xED] @ lit ''da!''),
                       data = Some (TaskData completedTask), error = None\<rparr>)))))
       (failure (nao_foi_possivel ''completar a tarefa.''))"

text \<open>\<open>xs.slice(0, end)\<close>; a number is truncated towards zero, and a negative end counts
  from the end of the array.\<close>

definition slice_to :: "runtime \<Rightarrow> jsval \<Rightarrow> 'a list \<Rightarrow> thrown + 'a list" where
  "slice_to rt end' xs =
     (case end' of
        JNum r \<Rightarrow>
          (let k = (if r \<ge> 0 then \<lfloor>r\<rfloor> else \<lceil>r\<rceil>)
           in Inr (take (nat (if k < 0 then int (length xs) + k else k)) xs))
      | JUndefined \<Rightarrow> Inr xs
      | _ \<Rightarrow> bind (slice_end_other rt end' (length xs)) (\<lambda>n. Inr (take n xs)))"

text \<open>\<open>xs.join(sep)\<close> on strings.\<close>

fun join :: "jsstring \<Rightarrow> jsstring list \<Rightarrow> jsstring" where
  "join sep [] = []"
| "join sep [x] = x"
| "join sep (x # y # ys) = x @ sep @ join sep (y # ys)"

text \<open>\<open>xs.map((x, index) => f(x, index))\<close>\<close>

definition map_index :: "('a \<Rightarrow> nat \<Rightarrow> 'b) \<Rightarrow> 'a list \<Rightarrow> 'b list" where
  "map_index f xs = map (\<lambda>(x, i). f x i) (zip xs [0..<length xs])"

text \<open>The filters of a search without the ones whose value is falsy.\<close>

definition remove_empty :: "(jsstring \<times> jsval) list \<Rightarrow> (jsstring \<times> jsval) list" where
  "remove_empty kvs = filter (\<lambda>(k, v). truthy v) kvs"

definition listTasks :: "runtime \<Rightarrow> NotionServices \<Rightarrow> jsval \<Rightarrow> CommandResult exec" where
  "listTasks rt ns params =
     try_catch
       (seq (lift (bind (read params ''status'') (\<lambda>status.
                   bind (read params ''priority'') (\<lambda>priority.
                   bind (read params ''project'') (\<lambda>project.
                     Inr (JObj (remove_empty [(lit ''status'', status),
                                              (lit ''priority'', priority),
                                              (lit ''project'', project)]))))))) (\<lambda>filters.
        seq (store (SearchTasks filters) (\<lambda>tr. ns_searchTasks ns tr filters)) (\<lambda>tasks.
          if length tasks = 0 then
            ret \<lparr>success = True,
                 message = JStr (lit ''Nenhuma tarefa encontrada com os filtros especificados.''),
                 data = Some (TaskList []), error = None\<rparr>
          else
            seq (lift (bind (read params ''limit'') (\<lambda>limit.
                         slice_to rt (js_or limit (JNum 10)) tasks))) (\<lambda>limitedTasks.
              let taskList =
                    join [0x0A]
                      (map_index (\<lambda>task index.
                          Number_toString rt (of_nat (index + 1)) @ lit ''. '' @ task_title task
                            @ lit '' ('' @ task_status task @ lit '') - '' @ task_priority task)
                        limitedTasks)
              in ret \<lparr>success = True,
                      message = JStr ([0xD83D, 0xDCCB] @ lit '' Encontrei ''
                                        @ Number_toString rt (of_nat (length tasks))
                                        @ lit '' tarefa(s):'' @ [0x0A, 0x0A] @ taskList),
                      data = Some (TaskList limitedTasks), error = None\<rparr>))))
       (failure (nao_foi_possivel ''listar as tarefas.''))"

definition createNote :: "NotionServices \<Rightarrow> jsval \<Rightarrow> CommandResult exec" where
  "createNote ns params =
     try_catch
       (seq (lift (bind (read params ''title'') (\<lambda>title.
                   bind (read params ''content'') (\<lambda>content.
                   bind (read params ''tags'') (\<lambda>tags.
                     Inr (JObj [(lit ''title'', js_or title (JStr (lit ''Nova nota''))),
                                (lit ''content'', js_or content (JStr [])),
                                (lit ''tags'', js_or tags (JArr []))])))))) (\<lambda>noteData.
        seq (store (CreateNote noteData) (\<lambda>tr. ns_createNote ns tr noteData)) (\<lambda>note.
        ret \<lparr>success = True,
             message = JStr ([0xD83D, 0xDCDD] @ lit '' Nota '' @ [0x22] @ note_title note @ [0x22]
                               @ lit '' criada com sucesso!''),
             data = Some (NoteData note), error = None\<rparr>)))
       (failure (nao_foi_possivel ''criar a nota.''))"

definition searchNotes :: "runtime \<Rightarrow> NotionServices \<Rightarrow> jsval \<Rightarrow> CommandResult exec" where
  "searchNotes rt ns params =
     try_catch
       (seq (lift (bind (read params ''query'') (\<lambda>query.
                   bind (read params ''tags'') (\<lambda>tags.
                     Inr (JObj [(lit ''query'', query), (lit ''tags'', tags)]))))) (\<lambda>filters.
        seq (store (SearchNotes filters) (\<lambda>tr. ns_searchNotes ns tr filters)) (\<lambda>notes.
          if length notes = 0 then
            ret \<lparr>success = True,
                 message = JStr (lit ''Nenhuma nota encontrada com os crit'' @ [0xE9]
                                   @ lit ''rios especificados.''),
                 data = Some (NoteList []), error = None\<rparr>
          else
            (let noteList =
                   join [0x0A]
                     (map_index (\<lambda>note index.
                         Number_toString rt (of_nat (index + 1)) @ lit ''. '' @ note_title note
                           @ (if length (note_tags note) > 0
                              then lit '' ['' @ join (lit '', '') (note_tags note) @ lit '']''
                              else []))
                       (take 10 notes))
             in ret \<lparr>success = True,
                     message = JStr ([0xD83D, 0xDCDA] @ lit '' Encontrei ''
                                       @ Number_toString rt (of_nat (length notes))
                                       @ lit '' nota(s):'' @ [0x0A, 0x0A] @ noteList),
                     data = Some (NoteList notes), error = None\<rparr>))))
       (failure (nao_foi_possivel ''buscar as notas.''))"

definition createProject :: "NotionServices \<Rightarrow> jsval \<Rightarrow> CommandResult exec" where
  "createProject ns params =
     try_catch
       (seq (lift (bind (read params ''name'') (\<lambda>name.
                   bind (read params ''description'') (\<lambda>description.
                   bind (read params ''status'') (\<lambda>status.
                     Inr (JObj [(lit ''name'', js_or name (JStr (lit ''Novo projeto''))),
                                (lit ''description'', description),
                                (lit ''status'', js_or status (JStr (lit ''Ativo'')))])))))) (\<lambda>projectData.
        seq (store (CreateProject projectData) (\<lambda>tr. ns_createProject ns tr projectData)) (\<lambda>project.
        ret \<lparr>success = True,
             message = JStr ([0xD83D, 0xDE80] @ lit '' Projeto '' @ [0x22] @ project_name project @ [0x22]
                               @ lit '' criado com sucesso!''),
             data = Some (ProjectData project), error = None\<rparr>)))
       (failure (nao_foi_possivel ''criar o projeto.''))"

definition getDashboard :: "runtime \<Rightarrow> NotionServices \<Rightarrow> CommandResult exec" where
  "getDashboard rt ns =
     try_catch
       (seq (store GetDashboardSummary (\<lambda>tr. ns_getDashboardSummary ns tr)) (\<lambda>summary.
        ret \<lparr>success = True,
             message = JStr
               ([0xD83D, 0xDCCA] @ lit '' **Dashboard - Resumo**'' @ [0x0A, 0x0A]
                @ [0xD83D, 0xDCCB] @ lit '' **Tarefas:**'' @ [0x0A]
                @ [0x2022] @ lit '' A fazer: '' @ Number_toString rt (tasks_todo summary) @ [0x0A]
                @ [0x2022] @ lit '' Em progresso: '' @ Number_toString rt (tasks_inProgress summary) @ [0x0A]
                @ [0x2022] @ lit '' Conclu'' @ [0xED] @ lit ''das: ''
                @ Number_toString rt (tasks_completed summary) @ [0x0A, 0x0A]
                @ [0xD83D, 0xDCDD] @ lit '' **Notas:** '' @ Number_toString rt (notes_total summary) @ [0x0A]
                @ [0xD83D, 0xDE80] @ lit '' **Projetos ativos:** ''
                @ Number_toString rt (projects_active summary) @ [0x0A, 0x0A]
                @ [0x26A1] @ lit '' **Produtividade hoje:** ''
                @ Number_toString rt (productivity_tasksCompletedToday summary)
                @ lit '' tarefas conclu'' @ [0xED] @ lit ''das''),
             data = Some (SummaryData summary), error = None\<rparr>))
       (failure (nao_foi_possivel ''obter o dashboard.''))"

definition getAnalytics :: "runtime \<Rightarrow> NotionServices \<Rightarrow> jsval \<Rightarrow> CommandResult exec" where
  "getAnalytics rt ns params =
     try_catch
       (seq (lift (read params ''period'')) (\<lambda>p.
        let period = js_or p (JStr (lit ''week''))
        in seq (store (GetProductivityStats period) (\<lambda>tr. ns_getProductivityStats ns tr period)) (\<lambda>stats.
           seq (lift (ToString rt period)) (\<lambda>period'.
           ret \<lparr>success = True,
                message = JStr
                  ([0xD83D, 0xDCC8] @ lit '' **Estat'' @ [0xED] @ lit ''sticas ('' @ period'
                   @ lit '')**'' @ [0x0A, 0x0A]
                   @ [0x2705] @ lit '' **Tarefas conclu'' @ [0xED] @ lit ''das:** ''
                   @ Number_toString rt (tasksCompleted stats) @ [0x0A]
                   @ [0xD83D, 0xDCDD] @ lit '' **Notas criadas:** ''
                   @ Number_toString rt (notesCreated stats) @ [0x0A]
                   @ [0x23F1, 0xFE0F] @ lit '' **Tempo m'' @ [0xE9] @ lit ''dio por tarefa:** ''
                   @ averageCompletionTime stats @ [0x0A]
                   @ [0xD83C, 0xDFAF] @ lit '' **Taxa de conclus'' @ [0xE3] @ lit ''o:** ''
                   @ Number_toString rt (completionRate stats) @ lit ''%'' @ [0x0A]
                   @ [0xD83D, 0xDD25] @ lit '' **Sequ'' @ [0xEA] @ lit ''ncia atual:** ''
                   @ Number_toString rt (currentStreak stats) @ lit '' dias''),
                data = Some (StatsData stats), error = None\<rparr>))))
       (failure (nao_foi_possivel ''obter as estat'' @ [0xED] @ lit ''sticas.''))"

definition msg_how_can_i_help :: jsstring where
  "msg_how_can_i_help = lit ''Como posso ajudar voc'' @ [0xEA] @ lit ''?''"

definition unrecognized :: "jsstring \<Rightarrow> CommandResult" where
  "unrecognized act =
     \<lparr>success = False,
      message = JStr (lit ''Comando n'' @ [0xE3] @ lit ''o reconhecido.''),
      data = None,
      error = Some (lit ''A'' @ [0xE7, 0xE3] @ lit ''o '' @ [0x27] @ act @ [0x27] @ lit '' n'' @ [0xE3]
                      @ lit ''o implementada'')\<rparr>"

definition executeCommand :: "runtime \<Rightarrow> NotionServices \<Rightarrow> NLPResult \<Rightarrow> CommandResult exec" where
  "executeCommand rt ns nlpResult =
     try_catch
       (case command nlpResult of
          None \<Rightarrow>
            ret \<lparr>success = True, message = js_or (response nlpResult) (JStr msg_how_can_i_help),
                 data = None, error = None\<rparr>
        | Some cmd \<Rightarrow>
            (let params = parameters nlpResult
             in if action cmd = lit ''create_task'' then createTask ns params
                else if action cmd = lit ''update_task'' then updateTask rt ns params
                else if action cmd = lit ''complete_task'' then completeTask rt ns params
                else if action cmd = lit ''list_tasks'' then listTasks rt ns params
                else if action cmd = lit ''create_note'' then createNote ns params
                else if action cmd = lit ''search_notes'' then searchNotes rt ns params
                else if action cmd = lit ''create_project'' then createProject ns params
                else if action cmd = lit ''get_summary'' then getDashboard rt ns
                else if action cmd = lit ''get_stats'' then getAnalytics rt ns params
                else ret (unrecognized (action cmd))))
       (failure (lit ''Ocorreu um erro ao executar o comando.''))"

section \<open>The system (NLPSystem)\<close>

record handled =
  nlpResult :: NLPResult
  commandResult :: CommandResult

definition processAndExecute ::
  "runtime \<Rightarrow> openai \<Rightarrow> NotionServices \<Rightarrow> int \<Rightarrow> jsstring \<Rightarrow> jsstring option \<Rightarrow> state
     \<Rightarrow> (thrown + handled) \<times> state" where
  "processAndExecute rt oa ns now inp session st =
     (let (nlp, st1) = processInput rt oa now inp session st;
          (r, tr) = executeCommand rt ns nlp (trace st1)
      in (case r of
            Inl e \<Rightarrow> Inl e
          | Inr cr \<Rightarrow> Inr \<lparr>nlpResult = nlp, commandResult = cr\<rparr>,
          st1\<lparr>trace := tr\<rparr>))"

definition getSystemStats :: "state \<Rightarrow> stats" where
  "getSystemStats st = getStats st"

definition clearSession :: "jsstring \<Rightarrow> state \<Rightarrow> state" where
  "clearSession sid st = clearContext sid st"

section \<open>Notions used to state the properties\<close>

text \<open>The history of a session in a state; empty when the session has no context.\<close>

definition history_of :: "jsstring \<Rightarrow> state \<Rightarrow> hist list" where
  "history_of sid st = (case map_of (contextMap st) sid of None \<Rightarrow> [] | Some c \<Rightarrow> history c)"

text \<open>The value of \<open>v.key\<close> where the read does not throw.\<close>

definition field :: "jsval \<Rightarrow> string \<Rightarrow> jsval" where
  "field v key =
     (case v of
        JObj kvs \<Rightarrow> (case map_of kvs (lit key) of None \<Rightarrow> JUndefined | Some x \<Rightarrow> x)
      | _ \<Rightarrow> JUndefined)"

text \<open>The default value of the parameter \<open>sessionId\<close> of \<open>processInput\<close>.\<close>

definition session_or_default :: "jsstring option \<Rightarrow> jsstring" where
  "session_or_default session = (case session of None \<Rightarrow> lit ''default'' | Some s \<Rightarrow> s)"

definition is_store_call :: "event \<Rightarrow> bool" where
  "is_store_call ev = (case ev of StoreCall c \<Rightarrow> True | _ \<Rightarrow> False)"

definition is_classifier_call :: "event \<Rightarrow> bool" where
  "is_classifier_call ev = (case ev of OpenAICall inp recent \<Rightarrow> True | _ \<Rightarrow> False)"

text \<open>What a step of the executor returns, when it returns, satisfies \<open>P\<close>.\<close>

definition yields :: "('a \<Rightarrow> bool) \<Rightarrow> 'a exec \<Rightarrow> bool" where
  "yields P m \<longleftrightarrow> (\<forall>tr x tr'. m tr = (Inr x, tr') \<longrightarrow> P x)"

text \<open>A step of the executor adds calls of the backing store to the events, and nothing else.\<close>

definition only_store_calls :: "'a exec \<Rightarrow> bool" where
  "only_store_calls m \<longleftrightarrow> (\<forall>tr. \<exists>cs. snd (m tr) = tr @ map StoreCall cs)"

definition presentable :: "CommandResult \<Rightarrow> bool" where
  "presentable cr \<longleftrightarrow> (\<exists>s. message cr = JStr s \<and> s \<noteq> []) \<and> (\<not> success cr \<longrightarrow> error cr \<noteq> None)"

text \<open>
  The requests that a system serves, one after the other: an input to process and
  execute (with the time read by the clock), or a session to clear.
\<close>

datatype request =
    Handle int jsstring "jsstring option"
  | ClearSession jsstring

fun serve :: "runtime \<Rightarrow> openai \<Rightarrow> NotionServices \<Rightarrow> request list \<Rightarrow> state \<Rightarrow> state" where
  "serve rt oa ns [] st = st"
| "serve rt oa ns (Handle now inp session # rs) st =
     serve rt oa ns rs (snd (processAndExecute rt oa ns now inp session st))"
| "serve rt oa ns (ClearSession sid # rs) st = serve rt oa ns rs (clearSession sid st)"

text \<open>Every context has its own key and at most ten entries.\<close>

definition bounded_store :: "context_map \<Rightarrow> bool" where
  "bounded_store m \<longleftrightarrow> distinct (map fst m) \<and> (\<forall>p \<in> set m. length (history (snd p)) \<le> 10)"

section \<open>Collaborators for the examples\<close>

text \<open>
  A runtime that is right on the values of the examples below: it parses the two
  replies that the examples use, lowers ASCII letters, and prints natural numbers.
\<close>

fun show_nat :: "nat \<Rightarrow> jsstring" where
  "show_nat n = (if n < 10 then [of_nat (48 + n)] else show_nat (n div 10) @ [of_nat (48 + n mod 10)])"

declare show_nat.simps [simp del]

definition text_dashboard :: jsstring where
  "text_dashboard =
     lit ''{'' @ [0x22] @ lit ''intent'' @ [0x22] @ lit '':'' @ [0x22] @ lit ''dashboard'' @ [0x22]
       @ lit '','' @ [0x22] @ lit ''response'' @ [0x22] @ lit '':'' @ [0x22] @ lit ''Seu resumo.''
       @ [0x22] @ lit ''}''"

definition json_dashboard :: jsval where
  "json_dashboard =
     JObj [(lit ''intent'', JStr (lit ''dashboard'')), (lit ''response'', JStr (lit ''Seu resumo.''))]"

definition text_update_project :: jsstring where
  "text_update_project =
     lit ''{'' @ [0x22] @ lit ''intent'' @ [0x22] @ lit '':'' @ [0x22] @ lit ''update_project'' @ [0x22]
       @ lit '','' @ [0x22] @ lit ''entities'' @ [0x22] @ lit '':{}}''"

definition json_update_project :: jsval where
  "json_update_project =
     JObj [(lit ''intent'', JStr (lit ''update_project'')), (lit ''entities'', JObj [])]"

definition parse0 :: "jsstring \<Rightarrow> jsval option" where
  "parse0 s =
     (if s = text_dashboard then Some json_dashboard
      else if s = text_update_project then Some json_update_project
      else None)"

definition rt0 :: runtime where
  "rt0 =
     \<lparr>JSON_parse = parse0,
      toLowerCase = map ascii_lower,
      Number_toString = (\<lambda>r. show_nat (nat \<lfloor>r\<rfloor>)),
      ToString_other = (\<lambda>v. Inr (lit ''[object Object]'')),
      Date_addDays = (\<lambda>t n. t + n * 86400000),
      Date_parse = (\<lambda>s. None),
      slice_end_other = (\<lambda>v n. Inr 0)\<rparr>"

text \<open>A classifier and a backing store that cannot be reached.\<close>

definition offline :: thrown where
  "offline = ErrorObj (lit ''connect ECONNREFUSED'')"

definition oa_down :: openai where
  "oa_down = (\<lambda>tr inp recent. Inl offline)"

definition ns_down :: NotionServices where
  "ns_down =
     \<lparr>ns_createTask = (\<lambda>tr d. Inl offline),
      ns_searchTasks = (\<lambda>tr f. Inl offline),
      ns_updateTask = (\<lambda>tr i u. Inl offline),
      ns_completeTask = (\<lambda>tr i. Inl offline),
      ns_createNote = (\<lambda>tr d. Inl offline),
      ns_searchNotes = (\<lambda>tr f. Inl offline),
      ns_createProject = (\<lambda>tr d. Inl offline),
      ns_getDashboardSummary = (\<lambda>tr. Inl offline),
      ns_getProductivityStats = (\<lambda>tr p. Inl offline)\<rparr>"

text \<open>A classifier that always replies with the same text.\<close>

definition oa_says :: "jsstring \<Rightarrow> openai" where
  "oa_says text = (\<lambda>tr inp recent. Inr (Some text))"

text \<open>
  A backing store in the manner of the mock of the test suite; the search for tasks
  returns the list given.
\<close>

definition mock_task :: "string \<Rightarrow> string \<Rightarrow> Task" where
  "mock_task i t =
     \<lparr>task_id = lit i, task_title = lit t, task_status = lit ''A fazer'', task_priority = lit ''Alta''\<rparr>"

definition ns_mock :: "Task list \<Rightarrow> NotionServices" where
  "ns_mock found =
     \<lparr>ns_createTask = (\<lambda>tr d. Inr (mock_task ''mock-task-id'' ''Mock Task'')),
      ns_searchTasks = (\<lambda>tr f. Inr found),
      ns_updateTask = (\<lambda>tr i u. Inr (mock_task ''1'' ''Mock Task 1'')),
      ns_completeTask = (\<lambda>tr i. Inr (mock_task ''1'' ''Mock Task 1'')),
      ns_createNote = (\<lambda>tr d. Inr \<lparr>note_title = lit ''Mock Note'', note_tags = []\<rparr>),
      ns_searchNotes = (\<lambda>tr f. Inr []),
      ns_createProject = (\<lambda>tr d. Inr \<lparr>project_name = lit ''Mock Project''\<rparr>),
      ns_getDashboardSummary =
        (\<lambda>tr. Inr \<lparr>tasks_todo = 5, tasks_inProgress = 3, tasks_completed = 10, notes_total = 15,
                    projects_active = 2, productivity_tasksCompletedToday = 3\<rparr>),
      ns_getProductivityStats =
        (\<lambda>tr p. Inr \<lparr>tasksCompleted = 25, notesCreated = 8, averageCompletionTime = lit ''2.5 horas'',
                      completionRate = 85, currentStreak = 7\<rparr>)\<rparr>"

text \<open>Results of the processor, as the executor receives them.\<close>

definition nlp_create_task :: NLPResult where
  "nlp_create_task =
     \<lparr>intent = JStr (lit ''create_task''), entities = JObj [], confidence = JNum 1,
      command = Some (mk_command ''create'' ''task'' ''create_task''),
      parameters = JObj [(lit ''description'', JStr (lit ''antes de sexta''))],
      response = JUndefined\<rparr>"

definition nlp_complete_task :: NLPResult where
  "nlp_complete_task =
     \<lparr>intent = JStr (lit ''complete_task''), entities = JObj [], confidence = JNum 1,
      command = Some (mk_command ''update'' ''task'' ''complete_task''),
      parameters = JObj [(lit ''taskId'', JUndefined), (lit ''title'', JStr (lit ''Reuniao X''))],
      response = JUndefined\<rparr>"

definition nlp_update_task :: NLPResult where
  "nlp_update_task =
     \<lparr>intent = JStr (lit ''update_task''), entities = JObj [], confidence = JNum 1,
      command = Some (mk_command ''update'' ''task'' ''update_task''),
      parameters = JObj [(lit ''title'', JStr (lit ''Reuniao X'')),
                         (lit ''updates'', JObj [(lit ''status'', JStr (lit ''Em progresso''))])],
      response = JUndefined\<rparr>"

text \<open>
  A reply of the classifier whose \<open>response\<close> is a number, a runtime that parses it,
  and the result with that response and no command.
\<close>

definition text_numeric :: jsstring where
  "text_numeric =
     lit ''{'' @ [0x22] @ lit ''intent'' @ [0x22] @ lit '':'' @ [0x22] @ lit ''help'' @ [0x22]
       @ lit '','' @ [0x22] @ lit ''response'' @ [0x22] @ lit '':42}''"

definition json_numeric :: jsval where
  "json_numeric = JObj [(lit ''intent'', JStr (lit ''help'')), (lit ''response'', JNum 42)]"

definition rt_numeric :: runtime where
  "rt_numeric =
     \<lparr>JSON_parse = (\<lambda>s. if s = text_numeric then Some json_numeric else None),
      toLowerCase = map ascii_lower,
      Number_toString = (\<lambda>r. show_nat (nat \<lfloor>r\<rfloor>)),
      ToString_other = (\<lambda>v. Inr (lit ''[object Object]'')),
      Date_addDays = (\<lambda>t n. t + n * 86400000),
      Date_parse = (\<lambda>s. None),
      slice_end_other = (\<lambda>v n. Inr 0)\<rparr>"

definition nlp_numeric :: NLPResult where
  "nlp_numeric =
     \<lparr>intent = JStr (lit ''help''), entities = JUndefined, confidence = JUndefined,
      command = None, parameters = JUndefined, response = JNum 42\<rparr>"

text \<open>Fifteen entries, numbered from 0 to 14.\<close>

definition fifteen :: "hist list" where
  "fifteen = map (\<lambda>i. \<lparr>input = show_nat i, output' = JStr (lit ''ok''), timestamp = int i\<rparr>) [0..<15]"

text \<open>A reply of the classifier that is not JSON.\<close>

definition text_plain :: jsstring where
  "text_plain = lit ''Claro! Vou criar a tarefa agora.''"

text \<open>The message of the dashboard for the summary of the mock.\<close>

definition dashboard_message :: jsstring where
  "dashboard_message =
     [0xD83D, 0xDCCA] @ lit '' **Dashboard - Resumo**'' @ [0xA, 0xA, 0xD83D, 0xDCCB]
       @ lit '' **Tarefas:**'' @ [0xA, 0x2022] @ lit '' A fazer: 5'' @ [0xA, 0x2022]
       @ lit '' Em progresso: 3'' @ [0xA, 0x2022] @ lit '' Conclu'' @ [0xED] @ lit ''das: 10''
       @ [0xA, 0xA, 0xD83D, 0xDCDD] @ lit '' **Notas:** 15'' @ [0xA, 0xD83D, 0xDE80]
       @ lit '' **Projetos ativos:** 2'' @ [0xA, 0xA, 0x26A1]
       @ lit '' **Produtividade hoje:** 3 tarefas conclu'' @ [0xED] @ lit ''das''"

text \<open>Two inputs in two sessions, then the first session is cleared.\<close>

definition requests0 :: "request list" where
  "requests0 =
     [Handle 0 (lit ''oi'') None,
      Handle 1 (lit ''mostrar dashboard'') (Some (lit ''s2'')),
      ClearSession (lit ''default'')]"



section \<open>Auxiliary facts\<close>

lemma slice_last_append_slice:
  "slice_last n (slice_last n xs @ ys) = slice_last n (xs @ ys)"
proof (cases "length xs \<le> n")
  case True
  then show ?thesis by (simp add: slice_last_def)
next
  case False
  then have "length xs + length ys - n = (length xs - n) + length ys" by simp
  with False show ?thesis by (simp add: slice_last_def add.commute)
qed

lemma slice_last_id: "length xs \<le> n \<Longrightarrow> slice_last n xs = xs"
  by (simp add: slice_last_def)

lemma bounded_is_slice_last:
  "(if length h > n then slice_last n h else h) = slice_last n h"
  by (simp add: slice_last_def)

lemma history_of_updateContext:
  "history_of s (updateContext sid inp out now st) =
     (if s = sid
      then slice_last 10 (history_of sid st @ [\<lparr>input = inp, output' = out, timestamp = now\<rparr>])
      else history_of s st)"
  by (auto simp: history_of_def updateContext_def getOrCreateContext_def Let_def update_conv'
        bounded_is_slice_last split: option.splits)

lemma history_of_fold_updateContext:
  "history_of sid (fold (\<lambda>(s, e). updateContext s (input e) (output' e) (timestamp e)) as st) =
     (if filter (\<lambda>p. fst p = sid) as = [] then history_of sid st
      else slice_last 10 (history_of sid st @ map snd (filter (\<lambda>p. fst p = sid) as)))"
proof (induction as arbitrary: st)
  case Nil
  then show ?case by simp
next
  case (Cons a as)
  obtain s e where a: "a = (s, e)" by (cases a)
  have e: "\<lparr>input = input e, output' = output' e, timestamp = timestamp e\<rparr> = e" by simp
  show ?case
    by (simp add: a Cons.IH history_of_updateContext slice_last_append_slice e)
qed

lemma read_cases:
  "read v key = (if v = JUndefined then Inl (cannot_read (lit ''undefined'') (lit key))
                 else if v = JNull then Inl (cannot_read (lit ''null'') (lit key))
                 else Inr (field v key))"
  by (cases v) (simp_all add: read_def field_def)

lemma read_Inr_any: "read v key = Inr x \<Longrightarrow> read v key' = Inr (field v key')"
  by (auto simp: read_cases split: if_splits)

lemma bind_Inr_iff: "bind m f = Inr y \<longleftrightarrow> (\<exists>x. m = Inr x \<and> f x = Inr y)"
  by (cases m) (simp_all add: bind_def)

lemma bind_Inr [simp]: "bind (Inr x) f = f x"
  by (simp add: bind_def)

lemma bind_Inl [simp]: "bind (Inl e) f = Inl e"
  by (simp add: bind_def)

lemma extractCommand_Inr_read:
  assumes "extractCommand rt now inp a = Inr x"
  shows "read a key = Inr (field a key)"
proof -
  from assms obtain i where "read a ''intent'' = Inr i"
    unfolding extractCommand_def by (auto simp: bind_Inr_iff)
  then show ?thesis by (rule read_Inr_any)
qed

lemma history_getOrCreateContext:
  "history (fst (getOrCreateContext sid m)) = (case map_of m sid of None \<Rightarrow> [] | Some c \<Rightarrow> history c)"
  by (simp add: getOrCreateContext_def Let_def split: option.splits)

lemma snd_analyzeIntent:
  "snd (analyzeIntent rt oa inp c tr) = tr @ [OpenAICall inp (slice_last 3 (history c))]"
  by (simp add: analyzeIntent_def Let_def)

lemma processInput_success:
  assumes "fst (analyzeIntent rt oa inp (fst (getOrCreateContext (session_or_default session) (contextMap st))) (trace st)) = Inr a"
    and "extractCommand rt now inp a = Inr (cmd, params)"
  shows "processInput rt oa now inp session st =
     (\<lparr>intent = field a ''intent'', entities = field a ''entities'',
       confidence = field a ''confidence'', command = cmd, parameters = params,
       response = field a ''response''\<rparr>,
      updateContext (session_or_default session) inp (js_or (field a ''response'') (JStr [])) now
        (st\<lparr>contextMap := snd (getOrCreateContext (session_or_default session) (contextMap st)),
            trace := trace st @ [OpenAICall inp (slice_last 3 (history (fst (getOrCreateContext (session_or_default session) (contextMap st)))))]\<rparr>))"
proof -
  have r: "\<And>key. read a key = Inr (field a key)"
    using assms(2) by (rule extractCommand_Inr_read)
  obtain c m where cm: "getOrCreateContext (session_or_default session) (contextMap st) = (c, m)"
    by (cases "getOrCreateContext (session_or_default session) (contextMap st)")
  obtain an tr where an: "analyzeIntent rt oa inp c (trace st) = (an, tr)"
    by (cases "analyzeIntent rt oa inp c (trace st)")
  have an': "an = Inr a" using assms(1) cm an by simp
  have tr': "tr = trace st @ [OpenAICall inp (slice_last 3 (history c))]"
    using snd_analyzeIntent [of rt oa inp c "trace st"] an by simp
  show ?thesis
    unfolding processInput_def session_or_default_def [symmetric]
    by (simp add: cm an an' tr' r assms(2) Let_def)
qed

lemma processInput_failure:
  assumes "fst (analyzeIntent rt oa inp (fst (getOrCreateContext (session_or_default session) (contextMap st))) (trace st)) = Inl e
     \<or> (\<exists>a. fst (analyzeIntent rt oa inp (fst (getOrCreateContext (session_or_default session) (contextMap st))) (trace st)) = Inr a
           \<and> extractCommand rt now inp a = Inl e)"
  shows "processInput rt oa now inp session st =
     (error_result,
      st\<lparr>contextMap := snd (getOrCreateContext (session_or_default session) (contextMap st)),
         trace := trace st @ [OpenAICall inp (slice_last 3 (history (fst (getOrCreateContext (session_or_default session) (contextMap st)))))]\<rparr>)"
proof -
  obtain c m where cm: "getOrCreateContext (session_or_default session) (contextMap st) = (c, m)"
    by (cases "getOrCreateContext (session_or_default session) (contextMap st)")
  obtain an tr where an: "analyzeIntent rt oa inp c (trace st) = (an, tr)"
    by (cases "analyzeIntent rt oa inp c (trace st)")
  have tr': "tr = trace st @ [OpenAICall inp (slice_last 3 (history c))]"
    using snd_analyzeIntent [of rt oa inp c "trace st"] an by simp
  from assms have "an = Inl e \<or> (\<exists>a. an = Inr a \<and> extractCommand rt now inp a = Inl e)"
    using cm an by simp
  then show ?thesis
    unfolding processInput_def session_or_default_def [symmetric]
    by (auto simp: cm an tr' Let_def)
qed

lemma yields_ret: "P x \<Longrightarrow> yields P (ret x)"
  by (simp add: yields_def ret_def)

lemma yields_seq: "(\<And>x. yields P (f x)) \<Longrightarrow> yields P (seq m f)"
  unfolding yields_def seq_def by (auto split: prod.splits sum.splits)

lemma yields_try_catch: "yields P body \<Longrightarrow> (\<And>e. P (handler e)) \<Longrightarrow> yields P (try_catch body handler)"
  unfolding yields_def try_catch_def by (auto split: prod.splits sum.splits)

lemma try_catch_returns: "\<exists>x tr'. try_catch body handler tr = (Inr x, tr')"
  unfolding try_catch_def by (auto split: prod.splits sum.splits)

lemma lit_Cons_nonempty [simp]: "lit (c # cs) \<noteq> []"
  by (simp add: lit_def)

lemma presentable_failure: "msg \<noteq> [] \<Longrightarrow> presentable (failure msg e)"
  by (simp add: presentable_def failure_def)

lemma nao_foi_possivel_nonempty [simp]: "nao_foi_possivel what \<noteq> []"
  by (simp add: nao_foi_possivel_def lit_def)

lemma presentable_not_found: "presentable (not_found t)"
  by (simp add: presentable_def not_found_def lit_def)

lemma yields_resolve_task:
  "yields (\<lambda>r. case r of Inl res \<Rightarrow> presentable res | Inr v \<Rightarrow> True) (resolve_task rt ns taskId title)"
  unfolding resolve_task_def
  by (auto intro!: yields_seq yields_ret simp: presentable_not_found split: list.splits)

lemma yields_createTask: "yields presentable (createTask ns params)"
  unfolding createTask_def
  by (intro yields_try_catch yields_seq yields_ret presentable_failure)
     (simp_all add: presentable_def lit_def)

lemma yields_if: "(c \<Longrightarrow> yields P a) \<Longrightarrow> (\<not> c \<Longrightarrow> yields P b) \<Longrightarrow> yields P (if c then a else b)"
  by simp

lemma yields_seq_strong:
  "yields Q m \<Longrightarrow> (\<And>x. Q x \<Longrightarrow> yields P (f x)) \<Longrightarrow> yields P (seq m f)"
  unfolding yields_def seq_def by (fastforce split: prod.splits sum.splits)

lemma yields_updateTask: "yields presentable (updateTask rt ns params)"
  unfolding updateTask_def
  apply (rule yields_try_catch)
   apply (rule yields_seq)
   apply (rule yields_seq)
   apply (rule yields_if)
    apply (rule yields_ret)
    apply (simp add: presentable_def msg_necessario_def)
   apply (rule yields_seq_strong [OF yields_resolve_task])
  subgoal for taskId title r
    by (cases r) (auto intro!: yields_seq yields_ret simp: presentable_def)
  apply (rule presentable_failure)
  apply simp
  done

lemma yields_completeTask: "yields presentable (completeTask rt ns params)"
  unfolding completeTask_def
  apply (rule yields_try_catch)
   apply (rule yields_seq)
   apply (rule yields_seq)
   apply (rule yields_if)
    apply (rule yields_ret)
    apply (simp add: presentable_def msg_necessario_def)
   apply (rule yields_seq_strong [OF yields_resolve_task])
  subgoal for taskId title r
    by (cases r) (auto intro!: yields_seq yields_ret simp: presentable_def)
  apply (rule presentable_failure)
  apply simp
  done

lemma yields_listTasks: "yields presentable (listTasks rt ns params)"
  unfolding listTasks_def
  apply (intro yields_try_catch yields_seq presentable_failure)
   apply (simp_all add: nao_foi_possivel_def lit_def)
  apply (auto intro!: yields_seq yields_ret simp: presentable_def Let_def lit_def)
  done

lemma yields_createNote: "yields presentable (createNote ns params)"
  unfolding createNote_def
  by (intro yields_try_catch yields_seq yields_ret presentable_failure)
     (simp_all add: presentable_def lit_def)

lemma yields_searchNotes: "yields presentable (searchNotes rt ns params)"
  unfolding searchNotes_def
  apply (intro yields_try_catch yields_seq presentable_failure)
   apply (simp_all add: nao_foi_possivel_def lit_def)
  apply (auto intro!: yields_seq yields_ret simp: presentable_def Let_def lit_def)
  done

lemma yields_createProject: "yields presentable (createProject ns params)"
  unfolding createProject_def
  by (intro yields_try_catch yields_seq yields_ret presentable_failure)
     (simp_all add: presentable_def lit_def)

lemma yields_getDashboard: "yields presentable (getDashboard rt ns)"
  unfolding getDashboard_def
  by (intro yields_try_catch yields_seq yields_ret presentable_failure)
     (simp_all add: presentable_def lit_def)

lemma yields_getAnalytics: "yields presentable (getAnalytics rt ns params)"
  unfolding getAnalytics_def Let_def
  apply (intro yields_try_catch yields_seq yields_ret presentable_failure)
   apply (simp_all add: presentable_def lit_def nao_foi_possivel_def)
  done

lemma yields_executeCommand:
  assumes "command r \<noteq> None \<or> \<not> truthy (response r) \<or> (\<exists>s. response r = JStr s)"
  shows "yields presentable (executeCommand rt ns r)"
  unfolding executeCommand_def Let_def
  apply (rule yields_try_catch)
   apply (cases "command r")
  using assms
    apply (auto intro!: yields_ret simp: presentable_def js_or_def msg_how_can_i_help_def lit_def)[1]
   apply (simp add: yields_createTask yields_updateTask yields_completeTask yields_listTasks
      yields_createNote yields_searchNotes yields_createProject yields_getDashboard yields_getAnalytics)
   apply (auto intro!: yields_ret simp: presentable_def unrecognized_def lit_def)[1]
  apply (rule presentable_failure)
  apply (simp add: lit_def)
  done

lemma yields_weaken: "yields P m \<Longrightarrow> (\<And>x. P x \<Longrightarrow> Q x) \<Longrightarrow> yields Q m"
  unfolding yields_def by blast

lemma yields_executeCommand_truthy:
  "yields (\<lambda>cr. truthy (message cr) \<and> (\<not> success cr \<longrightarrow> error cr \<noteq> None)) (executeCommand rt ns r)"
proof (cases "command r")
  case None
  show ?thesis
    unfolding executeCommand_def None
    by (auto intro!: yields_try_catch yields_ret
          simp: js_or_def msg_how_can_i_help_def failure_def lit_def)
next
  case (Some cmd)
  then have "yields presentable (executeCommand rt ns r)"
    by (intro yields_executeCommand) simp
  then show ?thesis
    by (rule yields_weaken) (auto simp: presentable_def)
qed

lemma osc_ret: "only_store_calls (ret x)"
  unfolding only_store_calls_def ret_def by (auto intro: exI [of _ "[]"])

lemma osc_lift: "only_store_calls (lift m)"
  unfolding only_store_calls_def lift_def by (auto intro: exI [of _ "[]"])

lemma osc_store: "only_store_calls (store c reply)"
  unfolding only_store_calls_def store_def by (auto intro: exI [of _ "[c]"])

lemma osc_seq:
  assumes "only_store_calls m" and "\<And>x. only_store_calls (f x)"
  shows "only_store_calls (seq m f)"
  unfolding only_store_calls_def
proof
  fix tr
  from assms(1) obtain cs where m: "snd (m tr) = tr @ map StoreCall cs"
    unfolding only_store_calls_def by blast
  show "\<exists>cs. snd (seq m f tr) = tr @ map StoreCall cs"
  proof (cases "fst (m tr)")
    case (Inl e)
    then have "snd (seq m f tr) = snd (m tr)"
      by (cases "m tr") (simp add: seq_def)
    with m show ?thesis by metis
  next
    case (Inr x)
    from assms(2) [of x] obtain cs' where "snd (f x (snd (m tr))) = snd (m tr) @ map StoreCall cs'"
      unfolding only_store_calls_def by blast
    moreover from Inr have "snd (seq m f tr) = snd (f x (snd (m tr)))"
      by (cases "m tr") (simp add: seq_def)
    ultimately have "snd (seq m f tr) = tr @ map StoreCall (cs @ cs')"
      using m by simp
    then show ?thesis by blast
  qed
qed

lemma osc_try_catch: "only_store_calls body \<Longrightarrow> only_store_calls (try_catch body handler)"
  unfolding only_store_calls_def try_catch_def
  by (auto split: prod.splits sum.splits) (metis snd_conv)+

lemma osc_if: "(c \<Longrightarrow> only_store_calls a) \<Longrightarrow> (\<not> c \<Longrightarrow> only_store_calls b) \<Longrightarrow> only_store_calls (if c then a else b)"
  by simp

lemmas osc_intros = osc_try_catch osc_seq osc_store osc_lift osc_ret osc_if

lemma osc_resolve_task: "only_store_calls (resolve_task rt ns taskId title)"
  unfolding resolve_task_def
  by (auto intro!: osc_intros split: list.splits)

lemma osc_createTask: "only_store_calls (createTask ns params)"
  unfolding createTask_def by (intro osc_intros)

lemma osc_updateTask: "only_store_calls (updateTask rt ns params)"
  unfolding updateTask_def
  by (auto intro!: osc_intros osc_resolve_task split: sum.splits)

lemma osc_completeTask: "only_store_calls (completeTask rt ns params)"
  unfolding completeTask_def
  by (auto intro!: osc_intros osc_resolve_task split: sum.splits)

lemma osc_listTasks: "only_store_calls (listTasks rt ns params)"
  unfolding listTasks_def Let_def by (intro osc_intros)

lemma osc_createNote: "only_store_calls (createNote ns params)"
  unfolding createNote_def by (intro osc_intros)

lemma osc_searchNotes: "only_store_calls (searchNotes rt ns params)"
  unfolding searchNotes_def Let_def by (intro osc_intros)

lemma osc_createProject: "only_store_calls (createProject ns params)"
  unfolding createProject_def by (intro osc_intros)

lemma osc_getDashboard: "only_store_calls (getDashboard rt ns)"
  unfolding getDashboard_def by (intro osc_intros)

lemma osc_getAnalytics: "only_store_calls (getAnalytics rt ns params)"
  unfolding getAnalytics_def Let_def by (intro osc_intros)

lemma osc_executeCommand: "only_store_calls (executeCommand rt ns r)"
  unfolding executeCommand_def Let_def
  by (cases "command r")
     (auto intro!: osc_try_catch osc_ret osc_createTask osc_updateTask osc_completeTask osc_listTasks
        osc_createNote osc_searchNotes osc_createProject osc_getDashboard osc_getAnalytics)

lemma executeCommand_trace:
  "\<exists>cs. snd (executeCommand rt ns r tr) = tr @ map StoreCall cs"
  using osc_executeCommand unfolding only_store_calls_def by blast

lemma executeCommand_returns: "\<exists>cr tr'. executeCommand rt ns r tr = (Inr cr, tr')"
  unfolding executeCommand_def by (rule try_catch_returns)

lemma unat_of_char: "unat (of_char c :: 16 word) = of_char c"
proof -
  have "(256 :: nat) < 2 ^ 16" by simp
  with nat_of_char_less_256 [of c] have "(of_char c :: nat) < 2 ^ 16"
    by (rule less_trans)
  then have "unat (word_of_nat (of_char c) :: 16 word) = of_char c"
    by (simp add: unat_of_nat)
  then show ?thesis by (simp add: of_nat_of_char)
qed

lemma inj_of_char_word: "inj (of_char :: char \<Rightarrow> 16 word)"
proof (rule injI)
  fix c d :: char
  assume "(of_char c :: 16 word) = of_char d"
  then have "unat (of_char c :: 16 word) = unat (of_char d :: 16 word)" by simp
  then show "c = d" by (simp add: unat_of_char)
qed

lemma lit_eq_iff [simp]: "lit s = lit t \<longleftrightarrow> s = t"
  by (simp add: lit_def inj_map_eq_map [OF inj_of_char_word])

lemma parse0_plain: "parse0 (lit ''Claro! Vou criar a tarefa agora.'') = None"
  by (simp add: parse0_def text_dashboard_def text_update_project_def lit_def)

lemma set_update_subset: "set (AList.update k v al) \<subseteq> insert (k, v) (set al)"
  by (induction al) auto

lemma bounded_store_getOrCreateContext:
  "bounded_store m \<Longrightarrow> bounded_store (snd (getOrCreateContext sid m))"
  by (auto simp: bounded_store_def getOrCreateContext_def Let_def map_of_eq_None_iff
        split: option.splits)

lemma getOrCreateContext_bounded_history:
  "bounded_store m \<Longrightarrow> length (history (fst (getOrCreateContext sid m))) \<le> 10"
  by (auto simp: bounded_store_def getOrCreateContext_def Let_def split: option.splits
        dest!: map_of_SomeD)

lemma bounded_store_update:
  "bounded_store m \<Longrightarrow> length (history c) \<le> 10 \<Longrightarrow> bounded_store (AList.update sid c m)"
  using set_update_subset [of sid c m]
  by (auto simp: bounded_store_def distinct_update)

lemma bounded_store_updateContext:
  assumes "bounded_store (contextMap st)"
  shows "bounded_store (contextMap (updateContext sid inp out now st))"
proof -
  obtain c m where cm: "getOrCreateContext sid (contextMap st) = (c, m)"
    by (cases "getOrCreateContext sid (contextMap st)")
  have m: "bounded_store m"
    using bounded_store_getOrCreateContext [OF assms, of sid] cm by simp
  have "length (slice_last 10 (history c @ [\<lparr>input = inp, output' = out, timestamp = now\<rparr>])) \<le> 10"
    by (simp add: slice_last_def)
  then show ?thesis
    by (simp add: updateContext_def cm Let_def bounded_is_slice_last bounded_store_update [OF m])
qed

lemma bounded_store_processInput:
  assumes "bounded_store (contextMap st)"
  shows "bounded_store (contextMap (snd (processInput rt oa now inp session st)))"
proof -
  let ?sid = "session_or_default session"
  obtain c m where cm: "getOrCreateContext ?sid (contextMap st) = (c, m)"
    by (cases "getOrCreateContext ?sid (contextMap st)")
  have m: "bounded_store m"
    using bounded_store_getOrCreateContext [OF assms, of ?sid] cm by simp
  obtain an tr where an: "analyzeIntent rt oa inp c (trace st) = (an, tr)"
    by (cases "analyzeIntent rt oa inp c (trace st)")
  have upd: "bounded_store (contextMap (updateContext ?sid inp out now (st\<lparr>contextMap := m, trace := tr\<rparr>)))" for out
    by (rule bounded_store_updateContext) (simp add: m)
  show ?thesis
    unfolding processInput_def session_or_default_def [symmetric]
    by (simp add: cm an Let_def m upd split: sum.splits prod.splits)
qed

lemma contextMap_processAndExecute:
  "contextMap (snd (processAndExecute rt oa ns now inp session st))
     = contextMap (snd (processInput rt oa now inp session st))"
  by (simp add: processAndExecute_def Let_def split: prod.splits)

lemma bounded_store_clearSession:
  "bounded_store (contextMap st) \<Longrightarrow> bounded_store (contextMap (clearSession sid st))"
proof -
  assume b: "bounded_store (contextMap st)"
  have "set (AList.delete sid (contextMap st)) \<subseteq> set (contextMap st)"
    by (auto simp: AList.delete_eq)
  with b show ?thesis
    by (auto simp: bounded_store_def clearSession_def clearContext_def distinct_delete)
qed

lemma bounded_store_serve:
  "bounded_store (contextMap st) \<Longrightarrow> bounded_store (contextMap (serve rt oa ns reqs st))"
proof (induction reqs arbitrary: st)
  case Nil
  then show ?case by simp
next
  case (Cons q reqs)
  show ?case
  proof (cases q)
    case (Handle now inp session)
    then show ?thesis
      using Cons by (simp add: contextMap_processAndExecute bounded_store_processInput)
  next
    case (ClearSession sid)
    then show ?thesis
      using Cons by (simp add: bounded_store_clearSession)
  qed
qed

lemma fold_total:
  "fold (\<lambda>(sid, c) total. total + length (history c)) m a
     = a + sum_list (map (\<lambda>p. length (history (snd p))) m)"
  by (induction m arbitrary: a) (auto simp: case_prod_beta)

lemma bounded_total:
  "\<forall>p \<in> set m. length (history (snd p)) \<le> 10 \<Longrightarrow>
     sum_list (map (\<lambda>p. length (history (snd p))) m) \<le> 10 * length m"
  by (induction m) auto

lemma history_getOrCreateContext_of:
  "history (fst (getOrCreateContext sid (contextMap st))) = history_of sid st"
  by (simp add: history_getOrCreateContext history_of_def)

lemma history_of_getOrCreateContext:
  "history_of sid' (st\<lparr>contextMap := snd (getOrCreateContext sid (contextMap st)), trace := tr\<rparr>)
     = history_of sid' st"
  by (auto simp: history_of_def getOrCreateContext_def Let_def map_of_append split: option.splits if_splits)

lemma trace_updateContext:
  "trace (updateContext sid inp out now st)
     = trace st @ [ContextAppend sid \<lparr>input = inp, output' = out, timestamp = now\<rparr>]"
  by (simp add: updateContext_def Let_def split: prod.splits)

lemma processInput_cases:
  "(\<exists>a cmd. fst (analyzeIntent rt oa inp (fst (getOrCreateContext (session_or_default session) (contextMap st))) (trace st)) = Inr a
       \<and> extractCommand rt now inp a = Inr cmd)
   \<or> (\<exists>e. fst (analyzeIntent rt oa inp (fst (getOrCreateContext (session_or_default session) (contextMap st))) (trace st)) = Inl e
     \<or> (\<exists>a. fst (analyzeIntent rt oa inp (fst (getOrCreateContext (session_or_default session) (contextMap st))) (trace st)) = Inr a
           \<and> extractCommand rt now inp a = Inl e))"
proof (cases "fst (analyzeIntent rt oa inp (fst (getOrCreateContext (session_or_default session) (contextMap st))) (trace st))")
  case (Inl e)
  then show ?thesis by blast
next
  case (Inr a)
  then show ?thesis by (cases "extractCommand rt now inp a") auto
qed

lemma trace_processInput:
  "trace (snd (processInput rt oa now inp session st))
     = trace st @ [OpenAICall inp (slice_last 3 (history_of (session_or_default session) st))]
   \<or> (\<exists>e. trace (snd (processInput rt oa now inp session st))
     = trace st @ [OpenAICall inp (slice_last 3 (history_of (session_or_default session) st)),
                   ContextAppend (session_or_default session) e])"
proof -
  let ?an = "fst (analyzeIntent rt oa inp (fst (getOrCreateContext (session_or_default session) (contextMap st))) (trace st))"
  consider (ok) a cmd where "?an = Inr a" and "extractCommand rt now inp a = Inr cmd"
    | (failed) e where "?an = Inl e \<or> (\<exists>a. ?an = Inr a \<and> extractCommand rt now inp a = Inl e)"
    using processInput_cases [of rt oa inp session st now] by blast
  then show ?thesis
  proof cases
    case ok
    show ?thesis
      using processInput_success [OF ok(1), of now "fst cmd" "snd cmd"] ok(2)
      by (simp add: trace_updateContext history_getOrCreateContext_of)
  next
    case failed
    from processInput_failure [OF failed]
    show ?thesis by (simp add: history_getOrCreateContext_of)
  qed
qed

lemma trace_processAndExecute:
  "\<exists>cs. trace (snd (processAndExecute rt oa ns now inp session st))
           = trace (snd (processInput rt oa now inp session st)) @ map StoreCall cs"
proof -
  obtain nlp st1 where p: "processInput rt oa now inp session st = (nlp, st1)"
    by (cases "processInput rt oa now inp session st")
  from executeCommand_trace [of rt ns nlp "trace st1"]
  obtain cs where "snd (executeCommand rt ns nlp (trace st1)) = trace st1 @ map StoreCall cs"
    by blast
  then show ?thesis
    by (auto simp: processAndExecute_def p Let_def split: prod.splits)
qed

lemma filter_classifier_store_calls [simp]: "filter is_classifier_call (map StoreCall cs) = []"
  by (induction cs) (simp_all add: is_classifier_call_def)

lemma list_all_store_calls [simp]: "list_all is_store_call (map StoreCall cs)"
  by (induction cs) (simp_all add: is_store_call_def)


lemma extractTitleFromInput_nonempty: "extractTitleFromInput inp \<noteq> []"
  by (simp add: extractTitleFromInput_def Let_def)

lemma history_of_processAndExecute:
  "history_of sid (snd (processAndExecute rt oa ns now inp session st))
     = history_of sid (snd (processInput rt oa now inp session st))"
  by (simp add: history_of_def contextMap_processAndExecute)

section \<open>Input length\<close>

text \<open>
  C1, as the code has it. \<open>validateInputLength\<close> answers an input of length 0 with
  the length-guidance message and an input of length above 1000 with the
  truncation-request message, and accepts every other input; it calls nothing.
  \<open>processAndExecute\<close> does not call it: for every input, of any length, the first
  thing it does is to call the classifier, and it calls the classifier exactly once.
\<close>

theorem length_validation:
  "(length inp = 0 \<longrightarrow>
      \<not> valid (validateInputLength inp) \<and> validation.message (validateInputLength inp) = Some msg_empty_input)
   \<and> (length inp > 1000 \<longrightarrow>
      \<not> valid (validateInputLength inp) \<and> validation.message (validateInputLength inp) = Some msg_too_long)
   \<and> (0 < length inp \<and> length inp \<le> 1000 \<longrightarrow> valid (validateInputLength inp))
   \<and> take (Suc (length (trace st))) (trace (snd (processAndExecute rt oa ns now inp session st)))
        = trace st @ [OpenAICall inp (slice_last 3 (history_of (session_or_default session) st))]
   \<and> length (filter is_classifier_call (trace (snd (processAndExecute rt oa ns now inp session st))))
        = Suc (length (filter is_classifier_call (trace st)))"
proof -
  obtain cs where cs: "trace (snd (processAndExecute rt oa ns now inp session st))
           = trace (snd (processInput rt oa now inp session st)) @ map StoreCall cs"
    using trace_processAndExecute by blast
  have "take (Suc (length (trace st))) (trace (snd (processAndExecute rt oa ns now inp session st)))
        = trace st @ [OpenAICall inp (slice_last 3 (history_of (session_or_default session) st))]
      \<and> length (filter is_classifier_call (trace (snd (processAndExecute rt oa ns now inp session st))))
        = Suc (length (filter is_classifier_call (trace st)))"
    using trace_processInput [of rt oa now inp session st]
    by (auto simp: cs is_classifier_call_def)
  then show ?thesis
    by (simp add: validateInputLength_def)
qed

theorem length_validation_witness:
  "\<not> valid (validateInputLength [])
   \<and> validation.message (validateInputLength []) = Some msg_empty_input
   \<and> \<not> valid (validateInputLength (replicate 1001 0x61))
   \<and> validation.message (validateInputLength (replicate 1001 0x61)) = Some msg_too_long
   \<and> valid (validateInputLength (lit ''oi''))
   \<and> take (Suc (length (trace initial_state)))
        (trace (snd (processAndExecute rt0 oa_down ns_down 7 [] None initial_state)))
        = trace initial_state @ [OpenAICall [] (slice_last 3 (history_of (session_or_default None) initial_state))]"
  using length_validation [of "[]" initial_state rt0 oa_down ns_down 7 None]
    length_validation [of "replicate 1001 0x61" initial_state rt0 oa_down ns_down 7 None]
    length_validation [of "lit ''oi''" initial_state rt0 oa_down ns_down 7 None]
  by (simp add: lit_def)

theorem length_validation_counterexample:
  "processAndExecute rt0 (oa_says text_plain) ns_down 7 [] None initial_state
     = (Inr \<lparr>nlpResult =
               \<lparr>intent = JStr (lit ''conversation''), entities = JObj [], confidence = JNum (1 / 2),
                command = None, parameters = JUndefined, response = JStr msg_clarify\<rparr>,
             commandResult =
               \<lparr>success = True, message = JStr msg_clarify, data = None, error = None\<rparr>\<rparr>,
        \<lparr>contextMap =
           [(lit ''default'',
             \<lparr>sessionId = lit ''default'',
              history = [\<lparr>input = [], output' = JStr msg_clarify, timestamp = 7\<rparr>]\<rparr>)],
         trace = [OpenAICall [] [],
                  ContextAppend (lit ''default'') \<lparr>input = [], output' = JStr msg_clarify, timestamp = 7\<rparr>]\<rparr>)
   \<and> msg_clarify \<noteq> msg_empty_input
   \<and> trace (snd (processAndExecute rt0 oa_down ns_down 7 (replicate 1001 0x61) None initial_state))
     = [OpenAICall (replicate 1001 0x61) []]"
  by code_simp

section \<open>The executor always answers\<close>

text \<open>
  C2, as the code has it. \<open>executeCommand\<close> is total: for every result of the
  processor, whatever the backing store does, it returns a command result and throws
  nothing; the message of the result is truthy (never empty), and when \<open>success\<close>
  is false the field \<open>error\<close> is set. When the result has a command, the message is
  a string that is not empty. When it has no command, the message is the field
  \<open>response\<close> of the result as it is, of whatever type, when that is truthy, and the
  fixed question otherwise; so it is a string exactly when the response is a string
  or falsy, and the executor does not check that.
\<close>

theorem executeCommand_total:
  "\<exists>cr tr'. executeCommand rt ns r tr = (Inr cr, tr')
      \<and> truthy (message cr)
      \<and> (\<not> success cr \<longrightarrow> error cr \<noteq> None)
      \<and> (command r \<noteq> None \<longrightarrow> (\<exists>s. message cr = JStr s \<and> s \<noteq> []))
      \<and> (command r = None \<longrightarrow>
            success cr
            \<and> message cr =
                (if truthy (response r) then response r
                 else JStr (lit ''Como posso ajudar voc'' @ [0xEA] @ lit ''?'')))
      \<and> (command r \<noteq> None \<or> \<not> truthy (response r) \<or> (\<exists>s. response r = JStr s) \<longrightarrow>
            (\<exists>s. message cr = JStr s \<and> s \<noteq> []))"
proof -
  have "\<exists>cr tr'. executeCommand rt ns r tr = (Inr cr, tr')"
    by (rule executeCommand_returns)
  then obtain cr tr' where run: "executeCommand rt ns r tr = (Inr cr, tr')"
    by blast
  from yields_executeCommand_truthy [of rt ns r] run
  have weak: "truthy (message cr) \<and> (\<not> success cr \<longrightarrow> error cr \<noteq> None)"
    unfolding yields_def by blast
  have typed: "\<exists>s. message cr = JStr s \<and> s \<noteq> []"
    if "command r \<noteq> None \<or> \<not> truthy (response r) \<or> (\<exists>s. response r = JStr s)"
    using yields_executeCommand [OF that, of rt ns] run
    unfolding yields_def presentable_def by blast
  have relay: "success cr
            \<and> message cr =
                (if truthy (response r) then response r
                 else JStr (lit ''Como posso ajudar voc'' @ [0xEA] @ lit ''?''))"
    if "command r = None"
    using run that
    by (auto simp: executeCommand_def try_catch_def ret_def js_or_def msg_how_can_i_help_def)
  have w1: "truthy (message cr)" and w2: "\<not> success cr \<longrightarrow> error cr \<noteq> None"
    using weak by simp_all
  have c3: "command r \<noteq> None \<longrightarrow> (\<exists>s. message cr = JStr s \<and> s \<noteq> [])"
  proof
    assume "command r \<noteq> None"
    then show "\<exists>s. message cr = JStr s \<and> s \<noteq> []" by (intro typed) simp
  qed
  have c4: "command r = None \<longrightarrow>
            success cr
            \<and> message cr =
                (if truthy (response r) then response r
                 else JStr (lit ''Como posso ajudar voc'' @ [0xEA] @ lit ''?''))"
  proof
    assume "command r = None"
    then show "success cr
            \<and> message cr =
                (if truthy (response r) then response r
                 else JStr (lit ''Como posso ajudar voc'' @ [0xEA] @ lit ''?''))"
      by (rule relay)
  qed
  have c5: "command r \<noteq> None \<or> \<not> truthy (response r) \<or> (\<exists>s. response r = JStr s) \<longrightarrow>
            (\<exists>s. message cr = JStr s \<and> s \<noteq> [])"
  proof
    assume "command r \<noteq> None \<or> \<not> truthy (response r) \<or> (\<exists>s. response r = JStr s)"
    then show "\<exists>s. message cr = JStr s \<and> s \<noteq> []" by (rule typed)
  qed
  show ?thesis
  proof (rule exI [where x = cr], rule exI [where x = "tr'"], intro conjI)
    show "executeCommand rt ns r tr = (Inr cr, tr')" by (rule run)
    show "truthy (message cr)" by (rule w1)
    show "\<not> success cr \<longrightarrow> error cr \<noteq> None" by (rule w2)
    show "command r \<noteq> None \<longrightarrow> (\<exists>s. message cr = JStr s \<and> s \<noteq> [])" by (rule c3)
    show "command r = None \<longrightarrow>
            success cr
            \<and> message cr =
                (if truthy (response r) then response r
                 else JStr (lit ''Como posso ajudar voc'' @ [0xEA] @ lit ''?''))"
      by (rule c4)
    show "command r \<noteq> None \<or> \<not> truthy (response r) \<or> (\<exists>s. response r = JStr s) \<longrightarrow>
            (\<exists>s. message cr = JStr s \<and> s \<noteq> [])"
      by (rule c5)
  qed
qed

theorem executeCommand_total_witness:
  "command nlp_create_task \<noteq> None
   \<and> (\<exists>cr tr'. executeCommand rt0 ns_down nlp_create_task [] = (Inr cr, tr')
         \<and> truthy (message cr)
         \<and> \<not> success cr
         \<and> error cr = Some (lit ''connect ECONNREFUSED'')
         \<and> (\<exists>s. message cr = JStr s \<and> s \<noteq> []))
   \<and> command nlp_numeric = None
   \<and> truthy (response nlp_numeric)
   \<and> (\<exists>cr tr'. executeCommand rt0 ns_down nlp_numeric [] = (Inr cr, tr')
         \<and> success cr \<and> message cr = response nlp_numeric)"
proof -
  have h: "command nlp_create_task \<noteq> None"
    by (simp add: nlp_create_task_def)
  from executeCommand_total [of rt0 ns_down nlp_create_task "[]"] h
  obtain cr tr' where run: "executeCommand rt0 ns_down nlp_create_task [] = (Inr cr, tr')"
    and t: "truthy (message cr)" and s: "\<exists>s. message cr = JStr s \<and> s \<noteq> []"
    by blast
  have "fst (executeCommand rt0 ns_down nlp_create_task [])
          = Inr (failure (nao_foi_possivel ''criar a tarefa.'') offline)"
    by code_simp
  with run have "cr = failure (nao_foi_possivel ''criar a tarefa.'') offline"
    by simp
  then have "\<not> success cr" and "error cr = Some (lit ''connect ECONNREFUSED'')"
    by (simp_all add: failure_def error_message_def offline_def)
  with run t s
  have first: "\<exists>cr tr'. executeCommand rt0 ns_down nlp_create_task [] = (Inr cr, tr')
         \<and> truthy (message cr)
         \<and> \<not> success cr
         \<and> error cr = Some (lit ''connect ECONNREFUSED'')
         \<and> (\<exists>s. message cr = JStr s \<and> s \<noteq> [])"
    by blast
  have n: "command nlp_numeric = None" and r: "truthy (response nlp_numeric)"
    by (simp_all add: nlp_numeric_def)
  from executeCommand_total [of rt0 ns_down nlp_numeric "[]"] n r
  have second: "\<exists>cr tr'. executeCommand rt0 ns_down nlp_numeric [] = (Inr cr, tr')
         \<and> success cr \<and> message cr = response nlp_numeric"
    by auto
  from h first n r second show ?thesis by blast
qed

theorem executeCommand_total_counterexample:
  "executeCommand rt0 ns_down nlp_numeric []
     = (Inr \<lparr>success = True, message = JNum 42, data = None, error = None\<rparr>, [])
   \<and> fst (processAndExecute rt_numeric (oa_says text_numeric) ns_down 7 (lit ''ajuda'') None initial_state)
     = Inr \<lparr>nlpResult =
              \<lparr>intent = JStr (lit ''help''), entities = JUndefined, confidence = JUndefined,
               command = None, parameters = JUndefined, response = JNum 42\<rparr>,
            commandResult =
              \<lparr>success = True, message = JNum 42, data = None, error = None\<rparr>\<rparr>
   \<and> JNum 42 \<noteq> JStr (lit ''42'')"
  by code_simp

section \<open>The intent of a result\<close>

text \<open>
  C3, as the code has it. The intent of the result of \<open>processInput\<close> is
  \<open>error\<close> when the call of the classifier throws, when its reply is absent or
  empty, and when the extraction of the command throws; it is \<open>conversation\<close> when
  the reply is not empty and cannot be parsed; otherwise it is the property
  \<open>intent\<close> of the parsed reply, whatever that is (the processor does not compare
  it with any list, and the list of the prompt has \<open>update_project\<close> as well).
\<close>

theorem intent_of_result:
  "intent (fst (processInput rt oa now inp session st)) =
     (case oa (trace st) inp (slice_last 3 (history_of (session_or_default session) st)) of
        Inl e \<Rightarrow> JStr (lit ''error'')
      | Inr None \<Rightarrow> JStr (lit ''error'')
      | Inr (Some text) \<Rightarrow>
          if text = [] then JStr (lit ''error'')
          else (case JSON_parse rt text of
                  None \<Rightarrow> JStr (lit ''conversation'')
                | Some a \<Rightarrow>
                    (case extractCommand rt now inp a of
                       Inl e \<Rightarrow> JStr (lit ''error'')
                     | Inr cmd \<Rightarrow> field a ''intent'')))"
proof -
  let ?c = "fst (getOrCreateContext (session_or_default session) (contextMap st))"
  let ?an = "fst (analyzeIntent rt oa inp ?c (trace st))"
  have fb: "extractCommand rt now inp fallback_analysis = Inr (None, JUndefined)"
    by (simp add: extractCommand_def fallback_analysis_def read_def)
  have fbi: "field fallback_analysis ''intent'' = JStr (lit ''conversation'')"
    by (simp add: fallback_analysis_def field_def)
  have an: "?an =
     (case oa (trace st) inp (slice_last 3 (history_of (session_or_default session) st)) of
        Inl e \<Rightarrow> Inl e
      | Inr None \<Rightarrow> Inl empty_response
      | Inr (Some text) \<Rightarrow>
          if text = [] then Inl empty_response
          else (case JSON_parse rt text of Some v \<Rightarrow> Inr v | None \<Rightarrow> Inr fallback_analysis))"
    by (simp add: analyzeIntent_def Let_def history_getOrCreateContext_of)
  consider (ok) a cmd where "?an = Inr a" and "extractCommand rt now inp a = Inr cmd"
    | (failed) e where "?an = Inl e \<or> (\<exists>a. ?an = Inr a \<and> extractCommand rt now inp a = Inl e)"
    using processInput_cases [of rt oa inp session st now] by blast
  then show ?thesis
  proof cases
    case ok
    have "intent (fst (processInput rt oa now inp session st)) = field a ''intent''"
      using processInput_success [OF ok(1), of now "fst cmd" "snd cmd"] ok(2) by simp
    with ok show ?thesis
      unfolding an
      by (auto simp: fb fbi split: sum.splits option.splits if_splits)
  next
    case failed
    have "intent (fst (processInput rt oa now inp session st)) = JStr (lit ''error'')"
      using processInput_failure [OF failed] by (simp add: error_result_def)
    with failed show ?thesis
      unfolding an
      by (auto simp: fb split: sum.splits option.splits if_splits)
  qed
qed

theorem intent_of_result_witness:
  "intent (fst (processInput rt0 (oa_says text_update_project) 7 (lit ''atualizar projeto Site'') None initial_state))
     = JStr (lit ''update_project'')"
proof -
  have p: "JSON_parse rt0 text_update_project = Some json_update_project"
    by (simp add: rt0_def parse0_def text_update_project_def text_dashboard_def lit_def)
  have t: "text_update_project \<noteq> []"
    by (simp add: text_update_project_def lit_def)
  have e: "extractCommand rt0 7 (lit ''atualizar projeto Site'') json_update_project = Inr (None, JUndefined)"
    by (simp add: extractCommand_def json_update_project_def read_def)
  have f: "field json_update_project ''intent'' = JStr (lit ''update_project'')"
    by (simp add: json_update_project_def field_def)
  show ?thesis
    using intent_of_result [of rt0 "oa_says text_update_project" 7 "lit ''atualizar projeto Site''" None initial_state]
    by (simp add: oa_says_def p t e f)
qed

theorem intent_of_result_counterexample:
  "intent (fst (processInput rt0 oa_down 7 (lit ''listar tarefas'') None initial_state)) = JStr (lit ''error'')
   \<and> JStr (lit ''error'') \<notin> set [JStr (lit ''create_task''), JStr (lit ''update_task''),
        JStr (lit ''complete_task''), JStr (lit ''list_tasks''), JStr (lit ''create_note''),
        JStr (lit ''search_notes''), JStr (lit ''create_project''), JStr (lit ''dashboard''),
        JStr (lit ''analytics''), JStr (lit ''help''), JStr (lit ''conversation'')]"
  by code_simp

section \<open>The entry appended to the history\<close>

text \<open>
  C4, as the code has it. For every input whose classification and extraction
  succeed, \<open>processInput\<close> appends one entry to the history of the session, whose
  output is the reply of the classifier (the property \<open>response\<close> of the analysis,
  or the empty string when it is falsy); the append comes after the call of the
  classifier and before every call of the backing store (classify, extract, append,
  dispatch), and the dispatch leaves the contexts as they are. When the
  classification or the extraction throws, nothing is appended.
\<close>

theorem append_before_dispatch:
  "(\<forall>a cmd.
      fst (analyzeIntent rt oa inp (fst (getOrCreateContext (session_or_default session) (contextMap st))) (trace st)) = Inr a
        \<and> extractCommand rt now inp a = Inr cmd \<longrightarrow>
      history_of (session_or_default session) (snd (processAndExecute rt oa ns now inp session st))
        = slice_last 10 (history_of (session_or_default session) st
            @ [\<lparr>input = inp, output' = js_or (field a ''response'') (JStr []), timestamp = now\<rparr>])
      \<and> take (length (trace st) + 2) (trace (snd (processAndExecute rt oa ns now inp session st)))
        = trace st @ [OpenAICall inp (slice_last 3 (history_of (session_or_default session) st)),
                      ContextAppend (session_or_default session)
                        \<lparr>input = inp, output' = js_or (field a ''response'') (JStr []), timestamp = now\<rparr>]
      \<and> list_all is_store_call
            (drop (length (trace st) + 2) (trace (snd (processAndExecute rt oa ns now inp session st)))))
   \<and> (\<forall>e.
      fst (analyzeIntent rt oa inp (fst (getOrCreateContext (session_or_default session) (contextMap st))) (trace st)) = Inl e
        \<or> (\<exists>a. fst (analyzeIntent rt oa inp (fst (getOrCreateContext (session_or_default session) (contextMap st))) (trace st)) = Inr a
              \<and> extractCommand rt now inp a = Inl e) \<longrightarrow>
      history_of (session_or_default session) (snd (processAndExecute rt oa ns now inp session st))
        = history_of (session_or_default session) st
      \<and> take (length (trace st) + 1) (trace (snd (processAndExecute rt oa ns now inp session st)))
        = trace st @ [OpenAICall inp (slice_last 3 (history_of (session_or_default session) st))]
      \<and> list_all is_store_call
            (drop (length (trace st) + 1) (trace (snd (processAndExecute rt oa ns now inp session st)))))
   \<and> contextMap (snd (processAndExecute rt oa ns now inp session st))
        = contextMap (snd (processInput rt oa now inp session st))"
proof (intro conjI allI impI)
  obtain cs where cs: "trace (snd (processAndExecute rt oa ns now inp session st))
           = trace (snd (processInput rt oa now inp session st)) @ map StoreCall cs"
    using trace_processAndExecute by blast
  {
    fix a cmd
    assume h: "fst (analyzeIntent rt oa inp (fst (getOrCreateContext (session_or_default session) (contextMap st))) (trace st)) = Inr a
        \<and> extractCommand rt now inp a = Inr cmd"
    then have an: "fst (analyzeIntent rt oa inp (fst (getOrCreateContext (session_or_default session) (contextMap st))) (trace st)) = Inr a"
      and ex: "extractCommand rt now inp a = Inr (fst cmd, snd cmd)" by simp_all
    note p = processInput_success [OF an ex]
    show "history_of (session_or_default session) (snd (processAndExecute rt oa ns now inp session st))
        = slice_last 10 (history_of (session_or_default session) st
            @ [\<lparr>input = inp, output' = js_or (field a ''response'') (JStr []), timestamp = now\<rparr>])"
      by (simp add: history_of_processAndExecute p history_of_updateContext history_of_getOrCreateContext)
    show "take (length (trace st) + 2) (trace (snd (processAndExecute rt oa ns now inp session st)))
        = trace st @ [OpenAICall inp (slice_last 3 (history_of (session_or_default session) st)),
                      ContextAppend (session_or_default session)
                        \<lparr>input = inp, output' = js_or (field a ''response'') (JStr []), timestamp = now\<rparr>]"
      by (simp add: cs p trace_updateContext history_getOrCreateContext_of)
    show "list_all is_store_call
            (drop (length (trace st) + 2) (trace (snd (processAndExecute rt oa ns now inp session st))))"
      by (simp add: cs p trace_updateContext)
  }
  {
    fix e
    assume h: "fst (analyzeIntent rt oa inp (fst (getOrCreateContext (session_or_default session) (contextMap st))) (trace st)) = Inl e
        \<or> (\<exists>a. fst (analyzeIntent rt oa inp (fst (getOrCreateContext (session_or_default session) (contextMap st))) (trace st)) = Inr a
              \<and> extractCommand rt now inp a = Inl e)"
    note p = processInput_failure [OF h]
    show "history_of (session_or_default session) (snd (processAndExecute rt oa ns now inp session st))
        = history_of (session_or_default session) st"
      by (simp add: history_of_processAndExecute p history_of_getOrCreateContext)
    show "take (length (trace st) + 1) (trace (snd (processAndExecute rt oa ns now inp session st)))
        = trace st @ [OpenAICall inp (slice_last 3 (history_of (session_or_default session) st))]"
      by (simp add: cs p history_getOrCreateContext_of)
    show "list_all is_store_call
            (drop (length (trace st) + 1) (trace (snd (processAndExecute rt oa ns now inp session st))))"
      by (simp add: cs p)
  }
  show "contextMap (snd (processAndExecute rt oa ns now inp session st))
        = contextMap (snd (processInput rt oa now inp session st))"
    by (rule contextMap_processAndExecute)
qed

theorem append_before_dispatch_witness:
  "fst (analyzeIntent rt0 (oa_says text_dashboard) (lit ''mostrar dashboard'')
          (fst (getOrCreateContext (session_or_default None) (contextMap initial_state)))
          (trace initial_state)) = Inr json_dashboard
   \<and> extractCommand rt0 7 (lit ''mostrar dashboard'') json_dashboard
        = Inr (Some (mk_command ''read'' ''dashboard'' ''get_summary''), JObj [])
   \<and> history_of (lit ''default'')
        (snd (processAndExecute rt0 (oa_says text_dashboard) (ns_mock []) 7 (lit ''mostrar dashboard'') None initial_state))
        = [\<lparr>input = lit ''mostrar dashboard'', output' = JStr (lit ''Seu resumo.''), timestamp = 7\<rparr>]
   \<and> take 2 (trace (snd (processAndExecute rt0 (oa_says text_dashboard) (ns_mock []) 7 (lit ''mostrar dashboard'') None initial_state)))
        = [OpenAICall (lit ''mostrar dashboard'') [],
           ContextAppend (lit ''default'')
             \<lparr>input = lit ''mostrar dashboard'', output' = JStr (lit ''Seu resumo.''), timestamp = 7\<rparr>]
   \<and> list_all is_store_call
        (drop 2 (trace (snd (processAndExecute rt0 (oa_says text_dashboard) (ns_mock []) 7 (lit ''mostrar dashboard'') None initial_state))))"
proof -
  have an: "fst (analyzeIntent rt0 (oa_says text_dashboard) (lit ''mostrar dashboard'')
          (fst (getOrCreateContext (session_or_default None) (contextMap initial_state)))
          (trace initial_state)) = Inr json_dashboard"
    by code_simp
  have ex: "extractCommand rt0 7 (lit ''mostrar dashboard'') json_dashboard
        = Inr (Some (mk_command ''read'' ''dashboard'' ''get_summary''), JObj [])"
    by code_simp
  have r: "js_or (field json_dashboard ''response'') (JStr []) = JStr (lit ''Seu resumo.'')"
    by code_simp
  have s: "session_or_default None = lit ''default''"
    by (simp add: session_or_default_def)
  have h0: "history_of (lit ''default'') initial_state = []" "trace initial_state = []"
    by (simp_all add: history_of_def initial_state_def)
  from append_before_dispatch [of rt0 "oa_says text_dashboard" "lit ''mostrar dashboard''" None initial_state 7 "ns_mock []"]
    an ex
  have "history_of (session_or_default None)
          (snd (processAndExecute rt0 (oa_says text_dashboard) (ns_mock []) 7 (lit ''mostrar dashboard'') None initial_state))
        = slice_last 10 (history_of (session_or_default None) initial_state
            @ [\<lparr>input = lit ''mostrar dashboard'', output' = js_or (field json_dashboard ''response'') (JStr []), timestamp = 7\<rparr>])
      \<and> take (length (trace initial_state) + 2)
            (trace (snd (processAndExecute rt0 (oa_says text_dashboard) (ns_mock []) 7 (lit ''mostrar dashboard'') None initial_state)))
        = trace initial_state @ [OpenAICall (lit ''mostrar dashboard'') (slice_last 3 (history_of (session_or_default None) initial_state)),
                      ContextAppend (session_or_default None)
                        \<lparr>input = lit ''mostrar dashboard'', output' = js_or (field json_dashboard ''response'') (JStr []), timestamp = 7\<rparr>]
      \<and> list_all is_store_call
            (drop (length (trace initial_state) + 2)
               (trace (snd (processAndExecute rt0 (oa_says text_dashboard) (ns_mock []) 7 (lit ''mostrar dashboard'') None initial_state))))"
    by blast
  then show ?thesis
    using an ex by (simp add: r s h0 slice_last_def numeral_2_eq_2)
qed

theorem append_before_dispatch_counterexample:
  "processAndExecute rt0 (oa_says text_dashboard) (ns_mock []) 7 (lit ''mostrar dashboard'') None initial_state
     = (Inr \<lparr>nlpResult =
               \<lparr>intent = JStr (lit ''dashboard''), entities = JUndefined, confidence = JUndefined,
                command = Some (mk_command ''read'' ''dashboard'' ''get_summary''),
                parameters = JObj [], response = JStr (lit ''Seu resumo.'')\<rparr>,
             commandResult =
               \<lparr>success = True, message = JStr dashboard_message,
                data = Some (SummaryData
                  \<lparr>tasks_todo = 5, tasks_inProgress = 3, tasks_completed = 10, notes_total = 15,
                   projects_active = 2, productivity_tasksCompletedToday = 3\<rparr>),
                error = None\<rparr>\<rparr>,
        \<lparr>contextMap =
           [(lit ''default'',
             \<lparr>sessionId = lit ''default'',
              history = [\<lparr>input = lit ''mostrar dashboard'', output' = JStr (lit ''Seu resumo.''),
                          timestamp = 7\<rparr>]\<rparr>)],
         trace = [OpenAICall (lit ''mostrar dashboard'') [],
                  ContextAppend (lit ''default'')
                    \<lparr>input = lit ''mostrar dashboard'', output' = JStr (lit ''Seu resumo.''), timestamp = 7\<rparr>,
                  StoreCall GetDashboardSummary]\<rparr>)
   \<and> JStr (lit ''Seu resumo.'') \<noteq> JStr dashboard_message"
  by code_simp

section \<open>The bound of a history\<close>

text \<open>
  C5. After any sequence of appends, to any sessions, in a system that starts empty,
  the history of a session is made of the last ten entries appended to that session,
  in the order in which they were appended, and of all of them when there are fewer;
  its length is the smaller of ten and the number of entries appended to the session.
  In particular fifteen appends to one session leave the last ten of them.
\<close>

theorem history_bound:
  "history_of sid (fold (\<lambda>(s, e). updateContext s (input e) (output' e) (timestamp e)) as initial_state)
     = slice_last 10 (map snd (filter (\<lambda>p. fst p = sid) as))
   \<and> length (history_of sid (fold (\<lambda>(s, e). updateContext s (input e) (output' e) (timestamp e)) as initial_state))
     = min 10 (length (filter (\<lambda>p. fst p = sid) as))"
proof -
  have "history_of sid initial_state = []"
    by (simp add: history_of_def initial_state_def)
  then have h: "history_of sid (fold (\<lambda>(s, e). updateContext s (input e) (output' e) (timestamp e)) as initial_state)
     = slice_last 10 (map snd (filter (\<lambda>p. fst p = sid) as))"
    by (simp add: history_of_fold_updateContext slice_last_def)
  show ?thesis
    unfolding h by (simp add: slice_last_def min_def)
qed

theorem history_bound_witness:
  "history_of (lit ''s1'')
     (fold (\<lambda>(s, e). updateContext s (input e) (output' e) (timestamp e))
        (map (Pair (lit ''s1'')) fifteen) initial_state)
     = drop 5 fifteen
   \<and> length (history_of (lit ''s1'')
        (fold (\<lambda>(s, e). updateContext s (input e) (output' e) (timestamp e))
           (map (Pair (lit ''s1'')) fifteen) initial_state)) = 10"
proof -
  have f: "filter (\<lambda>p. fst p = lit ''s1'') (map (Pair (lit ''s1'')) fifteen) = map (Pair (lit ''s1'')) fifteen"
    by (simp add: filter_map o_def)
  have l: "length fifteen = 15" by (simp add: fifteen_def)
  from history_bound [of "lit ''s1''" "map (Pair (lit ''s1'')) fifteen"]
  show ?thesis
    unfolding f by (simp add: slice_last_def l o_def)
qed

section \<open>Resolving a task by its title\<close>

text \<open>
  C6. For every \<open>update_task\<close> or \<open>complete_task\<close> command whose parameters carry a
  title (a string that is not empty) and no task id: when the search of the backing
  store by title returns no task, the result has \<open>success\<close> false and the message
  that the task was not found, and the search is the only call of the backing store;
  when the search returns one or more tasks, the id of the first one is the id given
  to the call that updates or completes the task.
\<close>

theorem resolve_by_title:
  assumes "command r = Some cmd"
    and "action cmd = lit ''update_task'' \<or> action cmd = lit ''complete_task''"
    and "\<not> truthy (field (parameters r) ''taskId'')"
    and "field (parameters r) ''title'' = JStr title"
    and "title \<noteq> []"
  shows "(ns_searchTasks ns tr (JObj [(lit ''title'', JStr title)]) = Inr [] \<longrightarrow>
           executeCommand rt ns r tr =
             (Inr \<lparr>success = False,
                   message = JStr (lit ''Tarefa '' @ [0x22] @ title @ [0x22] @ lit '' n'' @ [0xE3]
                                     @ lit ''o encontrada.''),
                   data = None,
                   error = Some (lit ''Tarefa n'' @ [0xE3] @ lit ''o encontrada'')\<rparr>,
              tr @ [StoreCall (SearchTasks (JObj [(lit ''title'', JStr title)]))]))
       \<and> (\<forall>t ts. ns_searchTasks ns tr (JObj [(lit ''title'', JStr title)]) = Inr (t # ts) \<longrightarrow>
           snd (executeCommand rt ns r tr) =
             tr @ [StoreCall (SearchTasks (JObj [(lit ''title'', JStr title)])),
                   StoreCall (if action cmd = lit ''update_task''
                              then UpdateTask (JStr (task_id t)) (field (parameters r) ''updates'')
                              else CompleteTask (JStr (task_id t)))])"
proof -
  from assms(4) have "parameters r \<noteq> JUndefined" "parameters r \<noteq> JNull"
    by (auto simp: field_def)
  with assms show ?thesis
    by (auto simp: executeCommand_def updateTask_def completeTask_def resolve_task_def try_catch_def
          seq_def lift_def store_def ret_def read_cases not_found_def ToString_def Let_def
          split: sum.splits)
qed

theorem resolve_by_title_witness:
  "command nlp_complete_task = Some (mk_command ''update'' ''task'' ''complete_task'')
   \<and> action (mk_command ''update'' ''task'' ''complete_task'') = lit ''complete_task''
   \<and> \<not> truthy (field (parameters nlp_complete_task) ''taskId'')
   \<and> field (parameters nlp_complete_task) ''title'' = JStr (lit ''Reuniao X'')
   \<and> lit ''Reuniao X'' \<noteq> []
   \<and> ns_searchTasks (ns_mock []) [] (JObj [(lit ''title'', JStr (lit ''Reuniao X''))]) = Inr []
   \<and> executeCommand rt0 (ns_mock []) nlp_complete_task [] =
        (Inr \<lparr>success = False,
              message = JStr (lit ''Tarefa '' @ [0x22] @ lit ''Reuniao X'' @ [0x22] @ lit '' n'' @ [0xE3]
                                @ lit ''o encontrada.''),
              data = None,
              error = Some (lit ''Tarefa n'' @ [0xE3] @ lit ''o encontrada'')\<rparr>,
         [StoreCall (SearchTasks (JObj [(lit ''title'', JStr (lit ''Reuniao X''))]))])
   \<and> snd (executeCommand rt0 (ns_mock [mock_task ''1'' ''Mock Task 1'', mock_task ''2'' ''Mock Task 2''])
             nlp_update_task []) =
        [StoreCall (SearchTasks (JObj [(lit ''title'', JStr (lit ''Reuniao X''))])),
         StoreCall (UpdateTask (JStr (lit ''1'')) (JObj [(lit ''status'', JStr (lit ''Em progresso''))]))]"
proof -
  let ?c = "mk_command ''update'' ''task'' ''complete_task''"
  let ?u = "mk_command ''update'' ''task'' ''update_task''"
  let ?found = "[mock_task ''1'' ''Mock Task 1'', mock_task ''2'' ''Mock Task 2'']"
  have c1: "command nlp_complete_task = Some ?c" by (simp add: nlp_complete_task_def)
  have c2: "action ?c = lit ''update_task'' \<or> action ?c = lit ''complete_task''"
    by (simp add: mk_command_def)
  have c4: "\<not> truthy (field (parameters nlp_complete_task) ''taskId'')"
    by (simp add: nlp_complete_task_def field_def)
  have c5: "field (parameters nlp_complete_task) ''title'' = JStr (lit ''Reuniao X'')"
    by (simp add: nlp_complete_task_def field_def)
  have c6: "lit ''Reuniao X'' \<noteq> []" by simp
  have c7: "ns_searchTasks (ns_mock []) [] (JObj [(lit ''title'', JStr (lit ''Reuniao X''))]) = Inr []"
    by (simp add: ns_mock_def)
  have u1: "command nlp_update_task = Some ?u" by (simp add: nlp_update_task_def)
  have u2: "action ?u = lit ''update_task'' \<or> action ?u = lit ''complete_task''"
    by (simp add: mk_command_def)
  have u4: "\<not> truthy (field (parameters nlp_update_task) ''taskId'')"
    by (simp add: nlp_update_task_def field_def)
  have u5: "field (parameters nlp_update_task) ''title'' = JStr (lit ''Reuniao X'')"
    by (simp add: nlp_update_task_def field_def)
  have u7: "ns_searchTasks (ns_mock ?found) [] (JObj [(lit ''title'', JStr (lit ''Reuniao X''))]) = Inr ?found"
    by (simp add: ns_mock_def)
  have u8: "action ?u = lit ''update_task''" by (simp add: mk_command_def)
  have u9: "field (parameters nlp_update_task) ''updates'' = JObj [(lit ''status'', JStr (lit ''Em progresso''))]"
    by (simp add: nlp_update_task_def field_def)
  have u10: "task_id (mock_task ''1'' ''Mock Task 1'') = lit ''1''" by (simp add: mock_task_def)
  from resolve_by_title [OF c1 c2 c4 c5 c6, of "ns_mock []" "[]" rt0] c7
  have first: "executeCommand rt0 (ns_mock []) nlp_complete_task [] =
        (Inr \<lparr>success = False,
              message = JStr (lit ''Tarefa '' @ [0x22] @ lit ''Reuniao X'' @ [0x22] @ lit '' n'' @ [0xE3]
                                @ lit ''o encontrada.''),
              data = None,
              error = Some (lit ''Tarefa n'' @ [0xE3] @ lit ''o encontrada'')\<rparr>,
         [StoreCall (SearchTasks (JObj [(lit ''title'', JStr (lit ''Reuniao X''))]))])"
    by simp
  from resolve_by_title [OF u1 u2 u4 u5 c6, of "ns_mock ?found" "[]" rt0] u7
  have "snd (executeCommand rt0 (ns_mock ?found) nlp_update_task []) =
        [StoreCall (SearchTasks (JObj [(lit ''title'', JStr (lit ''Reuniao X''))])),
         StoreCall (if action ?u = lit ''update_task''
                    then UpdateTask (JStr (task_id (mock_task ''1'' ''Mock Task 1'')))
                           (field (parameters nlp_update_task) ''updates'')
                    else CompleteTask (JStr (task_id (mock_task ''1'' ''Mock Task 1''))))]"
    by simp
  then have second: "snd (executeCommand rt0 (ns_mock ?found) nlp_update_task []) =
        [StoreCall (SearchTasks (JObj [(lit ''title'', JStr (lit ''Reuniao X''))])),
         StoreCall (UpdateTask (JStr (lit ''1'')) (JObj [(lit ''status'', JStr (lit ''Em progresso''))]))]"
    by (simp add: u8 u9 u10)
  from c1 c4 c5 c6 c7 first second show ?thesis
    by (simp add: mk_command_def)
qed

section \<open>The title of what is created\<close>




section \<open>Unparseable replies of the classifier\<close>

text \<open>
  C8. For every reply of the classifier that is not empty and that \<open>JSON.parse\<close>
  rejects, \<open>analyzeIntent\<close> returns the intent \<open>conversation\<close>, the confidence 0.5,
  no entities and the generic clarifying reply, and throws nothing.
\<close>

theorem analyzeIntent_fails_soft:
  assumes "oa tr inp (slice_last 3 (history c)) = Inr (Some text)"
    and "text \<noteq> []"
    and "JSON_parse rt text = None"
  shows "fst (analyzeIntent rt oa inp c tr) =
           Inr (JObj [(lit ''intent'', JStr (lit ''conversation'')),
                      (lit ''entities'', JObj []),
                      (lit ''confidence'', JNum (1 / 2)),
                      (lit ''response'',
                       JStr (lit ''Entendi sua mensagem, mas preciso de mais clareza para ajudar melhor.''))])"
  using assms by (simp add: analyzeIntent_def fallback_analysis_def msg_clarify_def)

theorem analyzeIntent_fails_soft_witness:
  "oa_says (lit ''Claro! Vou criar a tarefa agora.'') [] (lit ''criar tarefa'')
      (slice_last 3 (history \<lparr>sessionId = lit ''default'', history = []\<rparr>))
     = Inr (Some (lit ''Claro! Vou criar a tarefa agora.''))
   \<and> lit ''Claro! Vou criar a tarefa agora.'' \<noteq> []
   \<and> JSON_parse rt0 (lit ''Claro! Vou criar a tarefa agora.'') = None
   \<and> fst (analyzeIntent rt0 (oa_says (lit ''Claro! Vou criar a tarefa agora.'')) (lit ''criar tarefa'')
            \<lparr>sessionId = lit ''default'', history = []\<rparr> []) =
           Inr (JObj [(lit ''intent'', JStr (lit ''conversation'')),
                      (lit ''entities'', JObj []),
                      (lit ''confidence'', JNum (1 / 2)),
                      (lit ''response'',
                       JStr (lit ''Entendi sua mensagem, mas preciso de mais clareza para ajudar melhor.''))])"
proof -
  have h1: "oa_says (lit ''Claro! Vou criar a tarefa agora.'') [] (lit ''criar tarefa'')
      (slice_last 3 (history \<lparr>sessionId = lit ''default'', history = []\<rparr>))
     = Inr (Some (lit ''Claro! Vou criar a tarefa agora.''))"
    by (simp add: oa_says_def)
  have h2: "lit ''Claro! Vou criar a tarefa agora.'' \<noteq> []" by simp
  have h3: "JSON_parse rt0 (lit ''Claro! Vou criar a tarefa agora.'') = None"
    by (simp add: rt0_def parse0_plain)
  from analyzeIntent_fails_soft [where oa = "oa_says (lit ''Claro! Vou criar a tarefa agora.'')"
        and tr = "[]" and inp = "lit ''criar tarefa''"
        and c = "\<lparr>sessionId = lit ''default'', history = []\<rparr>" and rt = rt0, OF h1 h2 h3] h1 h2 h3
  show ?thesis by blast
qed

section \<open>Defaults of a new task\<close>

text \<open>
  C9. For every \<open>create_task\<close> command that the executor dispatches, the call
  \<open>createTask\<close> of the backing store is the only call made, and it receives: the
  title of the parameters, or \<open>Nova tarefa\<close> when it is absent; the priority of the
  parameters, or the priority written M, e with an acute accent, d, i, a when it is
  absent; the status \<open>A fazer\<close>, always; the tags of the parameters, or the empty
  list when they are absent. (Without parameters the executor calls nothing.)
\<close>

theorem createTask_defaults:
  assumes "command r = Some cmd" and "action cmd = lit ''create_task''"
  shows "snd (executeCommand rt ns r tr) =
           (if parameters r = JUndefined \<or> parameters r = JNull then tr
            else tr @ [StoreCall (CreateTask (JObj
              [(lit ''title'', js_or (field (parameters r) ''title'') (JStr (lit ''Nova tarefa''))),
               (lit ''description'', field (parameters r) ''description''),
               (lit ''priority'',
                js_or (field (parameters r) ''priority'') (JStr (lit ''M'' @ [0xE9] @ lit ''dia''))),
               (lit ''status'', JStr (lit ''A fazer'')),
               (lit ''dueDate'', field (parameters r) ''dueDate''),
               (lit ''tags'', js_or (field (parameters r) ''tags'') (JArr []))]))])
         \<and> js_or JUndefined (JStr (lit ''Nova tarefa'')) = JStr (lit ''Nova tarefa'')
         \<and> js_or JUndefined (JStr (lit ''M'' @ [0xE9] @ lit ''dia'')) = JStr (lit ''M'' @ [0xE9] @ lit ''dia'')
         \<and> js_or JUndefined (JArr []) = JArr []"
proof -
  have defaults: "js_or JUndefined v = v" for v
    by (simp add: js_or_def)
  have "snd (executeCommand rt ns r tr) = tr"
    if "parameters r = JUndefined \<or> parameters r = JNull"
    using assms that
    by (auto simp: executeCommand_def createTask_def try_catch_def seq_def lift_def read_cases)
  moreover have "snd (executeCommand rt ns r tr) =
            tr @ [StoreCall (CreateTask (JObj
              [(lit ''title'', js_or (field (parameters r) ''title'') (JStr (lit ''Nova tarefa''))),
               (lit ''description'', field (parameters r) ''description''),
               (lit ''priority'',
                js_or (field (parameters r) ''priority'') (JStr (lit ''M'' @ [0xE9] @ lit ''dia''))),
               (lit ''status'', JStr (lit ''A fazer'')),
               (lit ''dueDate'', field (parameters r) ''dueDate''),
               (lit ''tags'', js_or (field (parameters r) ''tags'') (JArr []))]))]"
    if "\<not> (parameters r = JUndefined \<or> parameters r = JNull)"
    using assms that
    by (simp add: executeCommand_def createTask_def try_catch_def seq_def lift_def store_def ret_def
          read_cases msg_media_def Let_def split: sum.splits)
  ultimately show ?thesis
    by (simp add: defaults)
qed

theorem createTask_defaults_witness:
  "command nlp_create_task = Some (mk_command ''create'' ''task'' ''create_task'')
   \<and> action (mk_command ''create'' ''task'' ''create_task'') = lit ''create_task''
   \<and> parameters nlp_create_task = JObj [(lit ''description'', JStr (lit ''antes de sexta''))]
   \<and> snd (executeCommand rt0 ns_down nlp_create_task []) =
        [StoreCall (CreateTask (JObj
           [(lit ''title'', JStr (lit ''Nova tarefa'')),
            (lit ''description'', JStr (lit ''antes de sexta'')),
            (lit ''priority'', JStr (lit ''M'' @ [0xE9] @ lit ''dia'')),
            (lit ''status'', JStr (lit ''A fazer'')),
            (lit ''dueDate'', JUndefined),
            (lit ''tags'', JArr [])]))]"
proof -
  have h1: "command nlp_create_task = Some (mk_command ''create'' ''task'' ''create_task'')"
    by (simp add: nlp_create_task_def)
  have h2: "action (mk_command ''create'' ''task'' ''create_task'') = lit ''create_task''"
    by (simp add: mk_command_def)
  have h3: "parameters nlp_create_task = JObj [(lit ''description'', JStr (lit ''antes de sexta''))]"
    by (simp add: nlp_create_task_def)
  from createTask_defaults [OF h1 h2, of rt0 ns_down "[]"] h1 h2 h3 show ?thesis
    by (simp add: field_def js_or_def)
qed

section \<open>Statistics\<close>

text \<open>
  C10. After any sequence of inputs processed and executed and of sessions cleared, in
  a system that starts empty, \<open>getStats\<close> returns as \<open>activeSessions\<close> the number
  of sessions that have a context and as \<open>totalInteractions\<close> the sum of the lengths
  of the histories of all contexts, and \<open>totalInteractions\<close> is at most ten times
  \<open>activeSessions\<close>.
\<close>

theorem stats_bound:
  "activeSessions (getStats (serve rt oa ns reqs initial_state))
     = card (dom (map_of (contextMap (serve rt oa ns reqs initial_state))))
   \<and> totalInteractions (getStats (serve rt oa ns reqs initial_state))
     = sum_list (map (\<lambda>p. length (history (snd p))) (contextMap (serve rt oa ns reqs initial_state)))
   \<and> totalInteractions (getStats (serve rt oa ns reqs initial_state))
     \<le> 10 * activeSessions (getStats (serve rt oa ns reqs initial_state))"
proof -
  let ?m = "contextMap (serve rt oa ns reqs initial_state)"
  have "bounded_store (contextMap initial_state)"
    by (simp add: bounded_store_def initial_state_def)
  then have b: "bounded_store ?m" by (rule bounded_store_serve)
  then have d: "distinct (map fst ?m)" and h: "\<forall>p \<in> set ?m. length (history (snd p)) \<le> 10"
    by (simp_all add: bounded_store_def)
  have "card (dom (map_of ?m)) = card (set (map fst ?m))"
    by (simp add: dom_map_of_conv_image_fst)
  also have "\<dots> = length ?m"
    using distinct_card [OF d] by simp
  finally have c: "card (dom (map_of ?m)) = length ?m" .
  show ?thesis
    using bounded_total [OF h] by (simp add: getStats_def fold_total c)
qed

theorem stats_bound_witness:
  "getStats (serve rt0 (oa_says text_dashboard) ns_down requests0 initial_state)
     = \<lparr>activeSessions = 1, totalInteractions = 1\<rparr>
   \<and> card (dom (map_of (contextMap (serve rt0 (oa_says text_dashboard) ns_down requests0 initial_state)))) = 1
   \<and> totalInteractions (getStats (serve rt0 (oa_says text_dashboard) ns_down requests0 initial_state))
     \<le> 10 * activeSessions (getStats (serve rt0 (oa_says text_dashboard) ns_down requests0 initial_state))"
proof -
  have v: "getStats (serve rt0 (oa_says text_dashboard) ns_down requests0 initial_state)
     = \<lparr>activeSessions = 1, totalInteractions = 1\<rparr>"
    by code_simp
  from stats_bound [of rt0 "oa_says text_dashboard" ns_down requests0] v
  show ?thesis by simp
qed

end
